theory Spec2Isabelle
  imports Complex_Main
begin

section \<open>Numbers and engine objects\<close>

text \<open>
  The game is TypeScript on the Phaser engine. A TypeScript \<^verbatim>\<open>number\<close> is an IEEE 754
  double. Health, time stamps, coordinates and velocities are held as the
  \<^typ>\<open>real\<close> they denote. The arithmetic of the entity and combat code is written over
  the reals; the reals have no NaN and no infinity, and in HOL \<open>a / 0 = 0\<close>, so a
  division of that code is written with \<open>js_div\<close>, which makes a zero divisor (where
  JavaScript would produce NaN or an infinity) a value of its own, so that "this
  division never sees a zero divisor" is a statement about the model.

  Where the rounding of doubles decides the result, in the random whole number of
  \<^verbatim>\<open>Phaser.Math.Between\<close> and in the normalisation of \<^verbatim>\<open>updateDirection\<close>, every operation
  is the operation on doubles of the next section.
\<close>

datatype fault = DivisionByZero

definition js_div :: "real \<Rightarrow> real \<Rightarrow> fault + real" where
  "js_div a b = (if b = 0 then Inl DivisionByZero else Inr (a / b))"

section \<open>Doubles\<close>

text \<open>
  An IEEE 754 binary64 value is a finite number, an infinity or NaN. A finite double is
  held as the real it denotes, so the two zeros of the format are one value \<open>Finite 0\<close>.

  \<open>binary64 x\<close> is the double nearest to the real \<open>x\<close>, ties to the even significand, as
  every arithmetic operation of JavaScript rounds its exact result. The doubles around
  \<open>x\<close> are the whole multiples of \<open>ulp = 2 ^ (e - 52)\<close>, where \<open>2 ^ e \<le> \<bar>x\<bar> < 2 ^ (e + 1)\<close>
  and \<open>e\<close> is at least -1022 (below \<open>2 ^ -1022\<close> the doubles are the multiples of
  \<open>2 ^ -1074\<close>, and a result below half of that is 0); a result that rounds to
  \<open>2 ^ 1024\<close> or beyond is an infinity.
\<close>

datatype double = Finite (finite_value: real) | PlusInfinity | MinusInfinity | NotANumber

definition round_half_even :: "real \<Rightarrow> int" where
  "round_half_even y =
     (if y - of_int \<lfloor>y\<rfloor> < 1 / 2 then \<lfloor>y\<rfloor>
      else if 1 / 2 < y - of_int \<lfloor>y\<rfloor> then \<lfloor>y\<rfloor> + 1
      else if even \<lfloor>y\<rfloor> then \<lfloor>y\<rfloor> else \<lfloor>y\<rfloor> + 1)"

definition binary64 :: "real \<Rightarrow> double" where
  "binary64 x =
     (if x = 0 then Finite 0
      else
        (let e = max \<lfloor>log 2 \<bar>x\<bar>\<rfloor> (- 1022);
             ulp = 2 powr (of_int (e - 52));
             r = of_int (round_half_even (x / ulp)) * ulp
         in if 2 ^ 1024 \<le> r then PlusInfinity
            else if r \<le> - (2 ^ 1024) then MinusInfinity
            else Finite r))"

text \<open>
  The operators \<^verbatim>\<open>+\<close>, \<^verbatim>\<open>-\<close>, \<^verbatim>\<open>*\<close>, \<^verbatim>\<open>/\<close> and \<^verbatim>\<open>Math.sqrt\<close>, \<^verbatim>\<open>Math.floor\<close> on doubles:
  the exact result rounded on finite operands, and the results the standard gives
  for infinities and NaN. A nonzero number divided by zero is an infinity, here with
  the sign of the dividend; zero divided by zero is NaN.
\<close>

fun js_negate :: "double \<Rightarrow> double" where
  "js_negate (Finite a) = Finite (- a)"
| "js_negate PlusInfinity = MinusInfinity"
| "js_negate MinusInfinity = PlusInfinity"
| "js_negate NotANumber = NotANumber"

fun js_add :: "double \<Rightarrow> double \<Rightarrow> double" where
  "js_add (Finite a) (Finite b) = binary64 (a + b)"
| "js_add NotANumber d = NotANumber"
| "js_add d NotANumber = NotANumber"
| "js_add PlusInfinity MinusInfinity = NotANumber"
| "js_add MinusInfinity PlusInfinity = NotANumber"
| "js_add PlusInfinity d = PlusInfinity"
| "js_add d PlusInfinity = PlusInfinity"
| "js_add MinusInfinity d = MinusInfinity"
| "js_add d MinusInfinity = MinusInfinity"

definition js_sub :: "double \<Rightarrow> double \<Rightarrow> double" where
  "js_sub a b = js_add a (js_negate b)"

definition signed_infinity :: "bool \<Rightarrow> double" where
  "signed_infinity positive = (if positive then PlusInfinity else MinusInfinity)"

fun js_mul :: "double \<Rightarrow> double \<Rightarrow> double" where
  "js_mul (Finite a) (Finite b) = binary64 (a * b)"
| "js_mul NotANumber d = NotANumber"
| "js_mul d NotANumber = NotANumber"
| "js_mul (Finite a) PlusInfinity = (if a = 0 then NotANumber else signed_infinity (0 < a))"
| "js_mul (Finite a) MinusInfinity = (if a = 0 then NotANumber else signed_infinity (a < 0))"
| "js_mul PlusInfinity (Finite b) = (if b = 0 then NotANumber else signed_infinity (0 < b))"
| "js_mul MinusInfinity (Finite b) = (if b = 0 then NotANumber else signed_infinity (b < 0))"
| "js_mul PlusInfinity PlusInfinity = PlusInfinity"
| "js_mul PlusInfinity MinusInfinity = MinusInfinity"
| "js_mul MinusInfinity PlusInfinity = MinusInfinity"
| "js_mul MinusInfinity MinusInfinity = PlusInfinity"

fun js_divide :: "double \<Rightarrow> double \<Rightarrow> double" where
  "js_divide (Finite a) (Finite b) =
     (if b = 0 then (if a = 0 then NotANumber else signed_infinity (0 < a))
      else binary64 (a / b))"
| "js_divide NotANumber d = NotANumber"
| "js_divide d NotANumber = NotANumber"
| "js_divide (Finite a) d = Finite 0"
| "js_divide PlusInfinity (Finite b) = signed_infinity (0 \<le> b)"
| "js_divide MinusInfinity (Finite b) = signed_infinity (b < 0)"
| "js_divide d1 d2 = NotANumber"

fun js_sqrt :: "double \<Rightarrow> double" where
  "js_sqrt (Finite a) = (if a < 0 then NotANumber else binary64 (sqrt a))"
| "js_sqrt PlusInfinity = PlusInfinity"
| "js_sqrt d = NotANumber"

fun js_floor :: "double \<Rightarrow> double" where
  "js_floor (Finite a) = Finite (of_int \<lfloor>a\<rfloor>)"
| "js_floor d = d"

text \<open>
  A sprite of the engine, with the state the game code reads or writes: position,
  velocity, horizontal flip, tint, the \<^verbatim>\<open>active\<close> flag (false once destroyed) and the
  data store that \<^verbatim>\<open>getData\<close>/\<^verbatim>\<open>setData\<close> access. Scale, depth, rotation and
  transparency are set by the source but never read by it and are left out.

  The data store is only used by \<^verbatim>\<open>checkAttackCollisions\<close>, with two kinds of key:
  the key \<^verbatim>\<open>"id"\<close> (read, never written anywhere in the repository) and the hit
  keys, template strings \<^verbatim>\<open>`${a}_${b}`\<close> of two numbers. Printing a number never
  produces an underscore and distinct numbers print differently, so a hit key is
  modelled by the pair \<open>(a, b)\<close> it is printed from.
\<close>

record Sprite =
  sprite_x :: real
  sprite_y :: real
  velocity_x :: real
  velocity_y :: real
  flipX :: bool
  tint :: "nat option"
  active :: bool
  data_id :: "real option"
  data_hit :: "real \<times> real \<Rightarrow> bool"

text \<open>
  Modelled from the spec: the engine capabilities of section 6 (create a positioned
  actor; set its velocity, flip and tint; destroy it; read and write its data).
\<close>

definition add_sprite :: "real \<Rightarrow> real \<Rightarrow> Sprite" where
  "add_sprite x y =
     \<lparr>sprite_x = x, sprite_y = y, velocity_x = 0, velocity_y = 0, flipX = False,
      tint = None, active = True, data_id = None, data_hit = (\<lambda>k. False)\<rparr>"

definition setVelocity :: "real \<Rightarrow> real \<Rightarrow> Sprite \<Rightarrow> Sprite" where
  "setVelocity vx vy s = s\<lparr>velocity_x := vx, velocity_y := vy\<rparr>"

definition setFlipX :: "bool \<Rightarrow> Sprite \<Rightarrow> Sprite" where
  "setFlipX b s = s\<lparr>flipX := b\<rparr>"

definition setTint :: "nat \<Rightarrow> Sprite \<Rightarrow> Sprite" where
  "setTint c s = s\<lparr>tint := Some c\<rparr>"



definition getData :: "Sprite \<Rightarrow> real \<times> real \<Rightarrow> bool" where
  "getData s k = data_hit s k"

definition setData :: "real \<times> real \<Rightarrow> bool \<Rightarrow> Sprite \<Rightarrow> Sprite" where
  "setData k v s = s\<lparr>data_hit := (data_hit s)(k := v)\<rparr>"

section \<open>Spawn requests, timers and the scene\<close>

text \<open>
  The declarations at the head of \<^verbatim>\<open>SpawnManager.ts\<close>. \<open>MonsterType\<close> is the string
  literal type \<^verbatim>\<open>"goblin"\<close>, a type with one value. \<open>GoblinConfig\<close> is
  \<^verbatim>\<open>Partial<MonsterConfig>\<close>: every field may be absent. Counts are loop bounds of the
  source and are integers here; \<open>loop\<close> and \<open>loopDelay\<close> are optional fields.
\<close>

datatype MonsterType = GoblinType

record GoblinConfig =
  opt_maxHealth :: "real option"
  opt_speed :: "real option"
  opt_damage :: "real option"
  opt_spriteKey :: "string option"
  opt_scale :: "real option"
  opt_knockbackForce :: "real option"
  opt_attackCooldown :: "real option"

record SpawnEvent =
  monsterType :: MonsterType
  spawn_count :: int
  spawn_config :: "GoblinConfig option"

record SpawnWave =
  delay :: real
  spawns :: "SpawnEvent list"

record SpawnSchedule =
  waves :: "SpawnWave list"
  loop :: "bool option"
  loopDelay :: "real option"

record RepeatingSpawnConfig =
  rep_monsterType :: MonsterType
  rep_interval :: real
  rep_count :: int
  rep_config :: "GoblinConfig option"

text \<open>
  The three closures the spawn manager hands to the engine's timers: the loop restart
  \<^verbatim>\<open>() => this.executeNextWave()\<close>, the wave callback, which captures its wave, and the
  repeating spawn's callback, which captures its configuration.
\<close>

datatype Callback =
    NextWaveCallback
  | WaveCallback SpawnWave
  | RepeatingCallback RepeatingSpawnConfig

text \<open>
  Modelled from the spec: the timer facility of sections 5 and 6 (register a one-shot
  callback after N ms, register a repeating callback every N ms, cancel either; waiting
  is a comparison against the simulation clock). A pending timer has a handle, the
  clock time at which it is due, its delay, and whether it repeats.
\<close>

record TimerEvent =
  timer_id :: nat
  due :: real
  timer_delay :: real
  timer_loop :: bool
  callback :: Callback

record Camera =
  scrollX :: real
  scrollY :: real
  cam_width :: real
  cam_height :: real

text \<open>
  The scene: the simulation clock, the pending timers, the main camera, and the source
  of \<^verbatim>\<open>Math.random()\<close> (the sequence of numbers it will return and how many were
  drawn).
\<close>

record Scene =
  time_now :: real
  timers :: "TimerEvent list"
  next_timer_id :: nat
  camera :: Camera
  random_source :: "nat \<Rightarrow> real"
  random_pos :: nat

definition addEvent :: "real \<Rightarrow> bool \<Rightarrow> Callback \<Rightarrow> Scene \<Rightarrow> nat \<times> Scene" where
  "addEvent d rep cb sc =
     (next_timer_id sc,
      sc\<lparr>timers := timers sc @
            [\<lparr>timer_id = next_timer_id sc, due = time_now sc + d, timer_delay = d,
              timer_loop = rep, callback = cb\<rparr>],
         next_timer_id := next_timer_id sc + 1\<rparr>)"

definition delayedCall :: "real \<Rightarrow> Callback \<Rightarrow> Scene \<Rightarrow> nat \<times> Scene" where
  "delayedCall d cb sc = addEvent d False cb sc"

definition timer_destroy :: "nat \<Rightarrow> Scene \<Rightarrow> Scene" where
  "timer_destroy h sc = sc\<lparr>timers := filter (\<lambda>t. timer_id t \<noteq> h) (timers sc)\<rparr>"

text \<open>
  \<^verbatim>\<open>Math.random()\<close> draws the next number of the source; \<^verbatim>\<open>Phaser.Math.Between(min, max)\<close>
  is \<^verbatim>\<open>Math.floor(Math.random() * (max - min + 1) + min)\<close>, evaluated in doubles: the
  difference, the sum, the product and the last sum are each rounded. The result is
  given as the number the double denotes; this is a finite one for every draw in
  \<open>[0, 1)\<close> and every pair of bounds that the game passes, and nothing is stated about
  \<open>Between\<close> where it is not.
\<close>

definition Math_random :: "Scene \<Rightarrow> real \<times> Scene" where
  "Math_random sc = (random_source sc (random_pos sc), sc\<lparr>random_pos := random_pos sc + 1\<rparr>)"

definition Between :: "real \<Rightarrow> real \<Rightarrow> Scene \<Rightarrow> real \<times> Scene" where
  "Between lo hi sc =
     (let (r, sc1) = Math_random sc
      in (finite_value
            (js_floor
               (js_add (js_mul (Finite r) (js_add (js_sub (Finite hi) (Finite lo)) (Finite 1)))
                  (Finite lo))),
          sc1))"

section \<open>Monster (abstract entity) and Goblin\<close>

record MonsterConfig =
  maxHealth :: real
  speed :: real
  damage :: real
  spriteKey :: string
  scale :: real
  knockbackForce :: real
  attackCooldown :: real

record Monster =
  target :: Sprite
  config :: MonsterConfig
  sprite :: Sprite
  currentHealth :: real
  lastAttackTime :: real
  isAlive :: bool

text \<open>The constructor: health starts at \<open>maxHealth\<close>, \<open>lastAttackTime\<close> at 0, alive.\<close>

definition Monster_new ::
  "Scene \<Rightarrow> real \<Rightarrow> real \<Rightarrow> Sprite \<Rightarrow> MonsterConfig \<Rightarrow> Monster" where
  "Monster_new scn x y tgt cfg =
     \<lparr>target = tgt, config = cfg, sprite = add_sprite x y,
      currentHealth = maxHealth cfg, lastAttackTime = 0, isAlive = True\<rparr>"

definition moveTowardsTarget :: "Monster \<Rightarrow> fault + Monster" where
  "moveTowardsTarget m =
     (let dx = sprite_x (target m) - sprite_x (sprite m);
          dy = sprite_y (target m) - sprite_y (sprite m);
          distance = sqrt (dx * dx + dy * dy)
      in if distance > 0 then
           (case js_div dx distance of
              Inl e \<Rightarrow> Inl e
            | Inr ux \<Rightarrow>
               (case js_div dy distance of
                  Inl e \<Rightarrow> Inl e
                | Inr uy \<Rightarrow>
                    Inr (m\<lparr>sprite :=
                      setFlipX (dx < 0)
                        (setVelocity (ux * speed (config m)) (uy * speed (config m))
                           (sprite m))\<rparr>)))
         else Inr m)"

definition update :: "Monster \<Rightarrow> fault + Monster" where
  "update m = (if \<not> isAlive m \<or> \<not> active (sprite m) then Inr m else moveTowardsTarget m)"

definition applyKnockback :: "Monster \<Rightarrow> fault + Monster" where
  "applyKnockback m =
     (let dx = sprite_x (sprite m) - sprite_x (target m);
          dy = sprite_y (sprite m) - sprite_y (target m);
          distance = sqrt (dx * dx + dy * dy)
      in if distance > 0 then
           (case js_div dx distance of
              Inl e \<Rightarrow> Inl e
            | Inr ux \<Rightarrow>
               (case js_div dy distance of
                  Inl e \<Rightarrow> Inl e
                | Inr uy \<Rightarrow>
                    Inr (m\<lparr>sprite :=
                      setVelocity (ux * knockbackForce (config m))
                        (uy * knockbackForce (config m)) (sprite m)\<rparr>)))
         else Inr m)"

text \<open>
  \<open>die\<close> clears the alive flag at once; the death tween it starts calls \<open>destroy\<close>
  200 ms later. \<open>takeDamage\<close> starts a 100 ms timer whose callback is
  \<open>clearTintCallback\<close>. Both deferred calls are operations the environment fires.
\<close>

definition die :: "Monster \<Rightarrow> Monster" where
  "die m = m\<lparr>isAlive := False\<rparr>"



definition takeDamage :: "Monster \<Rightarrow> real \<Rightarrow> fault + Monster" where
  "takeDamage m amount =
     (if \<not> isAlive m then Inr m
      else
        (let m1 = m\<lparr>currentHealth := currentHealth m - amount\<rparr>;
             m2 = m1\<lparr>sprite := setTint 16711680 (sprite m1)\<rparr>
         in case applyKnockback m2 of
              Inl e \<Rightarrow> Inl e
            | Inr m3 \<Rightarrow> Inr (if currentHealth m3 \<le> 0 then die m3 else m3)))"

definition canDealDamage :: "Monster \<Rightarrow> real \<Rightarrow> bool \<times> Monster" where
  "canDealDamage m time =
     (if time - lastAttackTime m \<ge> attackCooldown (config m)
      then (True, m\<lparr>lastAttackTime := time\<rparr>)
      else (False, m))"

definition getDamage :: "Monster \<Rightarrow> real" where
  "getDamage m = damage (config m)"

definition getIsAlive :: "Monster \<Rightarrow> bool" where
  "getIsAlive m = isAlive m"

text \<open>
  The Goblin constructor merges the caller's partial configuration over the defaults
  (\<^verbatim>\<open>{ ...DEFAULT_GOBLIN_CONFIG, ...config }\<close>).
\<close>

definition DEFAULT_GOBLIN_CONFIG :: MonsterConfig where
  "DEFAULT_GOBLIN_CONFIG =
     \<lparr>maxHealth = 50, speed = 80, damage = 10, spriteKey = ''goblin'', scale = 3 / 2,
      knockbackForce = 200, attackCooldown = 1000\<rparr>"

definition no_overrides :: GoblinConfig where
  "no_overrides =
     \<lparr>opt_maxHealth = None, opt_speed = None, opt_damage = None, opt_spriteKey = None,
      opt_scale = None, opt_knockbackForce = None, opt_attackCooldown = None\<rparr>"

definition or_default :: "'a option \<Rightarrow> 'a \<Rightarrow> 'a" where
  "or_default v d = (case v of None \<Rightarrow> d | Some w \<Rightarrow> w)"

definition merge_config :: "MonsterConfig \<Rightarrow> GoblinConfig \<Rightarrow> MonsterConfig" where
  "merge_config d c =
     \<lparr>maxHealth = or_default (opt_maxHealth c) (maxHealth d),
      speed = or_default (opt_speed c) (speed d),
      damage = or_default (opt_damage c) (damage d),
      spriteKey = or_default (opt_spriteKey c) (spriteKey d),
      scale = or_default (opt_scale c) (scale d),
      knockbackForce = or_default (opt_knockbackForce c) (knockbackForce d),
      attackCooldown = or_default (opt_attackCooldown c) (attackCooldown d)\<rparr>"

definition Goblin_new ::
  "Scene \<Rightarrow> real \<Rightarrow> real \<Rightarrow> Sprite \<Rightarrow> GoblinConfig \<Rightarrow> Monster" where
  "Goblin_new scn x y tgt c = Monster_new scn x y tgt (merge_config DEFAULT_GOBLIN_CONFIG c)"

section \<open>Attack (abstract periodic action) and AxeHackAttack\<close>

record AttackConfig =
  atk_damage :: real
  interval :: real
  duration :: real
  atk_scale :: real
  atk_spriteKey :: string
  offsetDistance :: real

record AxeHackConfig = AttackConfig +
  swingArc :: real
  swingSpeed :: real

record PartialAxeHackConfig =
  opt_atk_damage :: "real option"
  opt_interval :: "real option"
  opt_duration :: "real option"
  opt_atk_scale :: "real option"
  opt_atk_spriteKey :: "string option"
  opt_offsetDistance :: "real option"
  opt_swingArc :: "real option"
  opt_swingSpeed :: "real option"

definition DEFAULT_AXE_HACK_CONFIG :: AxeHackConfig where
  "DEFAULT_AXE_HACK_CONFIG =
     \<lparr>atk_damage = 25, interval = 2000, duration = 300, atk_scale = 2,
      atk_spriteKey = ''slash'', offsetDistance = 40, swingArc = 90, swingSpeed = 200\<rparr>"

definition merge_axe_config :: "AxeHackConfig \<Rightarrow> PartialAxeHackConfig \<Rightarrow> AxeHackConfig" where
  "merge_axe_config d c =
     \<lparr>atk_damage = or_default (opt_atk_damage c) (atk_damage d),
      interval = or_default (opt_interval c) (interval d),
      duration = or_default (opt_duration c) (duration d),
      atk_scale = or_default (opt_atk_scale c) (atk_scale d),
      atk_spriteKey = or_default (opt_atk_spriteKey c) (atk_spriteKey d),
      offsetDistance = or_default (opt_offsetDistance c) (offsetDistance d),
      swingArc = or_default (opt_swingArc c) (swingArc d),
      swingSpeed = or_default (opt_swingSpeed c) (swingSpeed d)\<rparr>"

record AttackDirection =
  dir_x :: real
  dir_y :: real

text \<open>
  An \<open>AxeHackAttack\<close> with the fields of its base class \<open>Attack\<close>. The constructor
  stores one and the same configuration object as \<^verbatim>\<open>config\<close> and as \<^verbatim>\<open>axeConfig\<close>, so
  the model has one field for both. \<open>attack_lastAttackTime\<close> is the base class's
  \<^verbatim>\<open>lastAttackTime\<close> and \<open>attack_update\<close> its \<^verbatim>\<open>update\<close>.
\<close>

record Attack =
  player :: Sprite
  axeConfig :: AxeHackConfig
  attack_lastAttackTime :: real
  currentDirection :: AttackDirection
  activeAttacks :: "Sprite list"

definition AxeHackAttack_new :: "Scene \<Rightarrow> Sprite \<Rightarrow> PartialAxeHackConfig \<Rightarrow> Attack" where
  "AxeHackAttack_new scn p c =
     \<lparr>player = p, axeConfig = merge_axe_config DEFAULT_AXE_HACK_CONFIG c,
      attack_lastAttackTime = 0, currentDirection = \<lparr>dir_x = 1, dir_y = 0\<rparr>,
      activeAttacks = []\<rparr>"

text \<open>
  \<open>updateDirection\<close> guards the velocity, not the length it divides by. The squares,
  their sum, the square root and the two quotients are operations on doubles. A
  quotient that is not a finite number (JavaScript stores an infinity or NaN in the
  direction when the length is 0) is the fault of the model.
\<close>

definition updateDirection :: "Attack \<Rightarrow> real \<Rightarrow> real \<Rightarrow> fault + Attack" where
  "updateDirection a velocityX velocityY =
     (if velocityX \<noteq> 0 \<or> velocityY \<noteq> 0 then
        (let len = js_sqrt (js_add (js_mul (Finite velocityX) (Finite velocityX))
                                   (js_mul (Finite velocityY) (Finite velocityY)))
         in case js_divide (Finite velocityX) len of
              Finite ux \<Rightarrow>
                (case js_divide (Finite velocityY) len of
                   Finite uy \<Rightarrow> Inr (a\<lparr>currentDirection := \<lparr>dir_x = ux, dir_y = uy\<rparr>\<rparr>)
                 | _ \<Rightarrow> Inl DivisionByZero)
            | _ \<Rightarrow> Inl DivisionByZero)
      else Inr a)"

text \<open>
  \<open>execute\<close> creates the slash sprite at the player's position plus the facing
  direction times \<open>offsetDistance\<close> and appends it to \<open>activeAttacks\<close>. The swing and
  fade tweens it starts, and the timer that removes the sprite after \<open>duration\<close>, run
  later in the engine.
\<close>

definition execute :: "Attack \<Rightarrow> Attack" where
  "execute a =
     (let offsetX = dir_x (currentDirection a) * offsetDistance (axeConfig a);
          offsetY = dir_y (currentDirection a) * offsetDistance (axeConfig a);
          slash = add_sprite (sprite_x (player a) + offsetX) (sprite_y (player a) + offsetY)
      in a\<lparr>activeAttacks := activeAttacks a @ [slash]\<rparr>)"

definition attack_update :: "Attack \<Rightarrow> real \<Rightarrow> Attack" where
  "attack_update a time =
     (if time - attack_lastAttackTime a \<ge> interval (axeConfig a)
      then (execute a)\<lparr>attack_lastAttackTime := time\<rparr>
      else a)"

definition getActiveAttacks :: "Attack \<Rightarrow> Sprite list" where
  "getActiveAttacks a = activeAttacks a"

definition attack_getDamage :: "Attack \<Rightarrow> real" where
  "attack_getDamage a = atk_damage (axeConfig a)"

section \<open>SpawnManager\<close>

text \<open>
  The manager with the scene it was given. \<open>scheduleTimer\<close> and \<open>repeatingSpawns\<close> hold
  handles of timers of the scene. Every monster is constructed with the manager's
  target, the player's sprite.
\<close>

record SpawnManager =
  scene :: Scene
  sm_target :: Sprite
  monsters :: "Monster list"
  worldWidth :: real
  worldHeight :: real
  spawnPadding :: real
  currentSchedule :: "SpawnSchedule option"
  currentWaveIndex :: nat
  scheduleTimer :: "nat option"
  repeatingSpawns :: "string \<Rightarrow> nat option"

definition SpawnManager_new :: "Scene \<Rightarrow> Sprite \<Rightarrow> real \<Rightarrow> real \<Rightarrow> SpawnManager" where
  "SpawnManager_new scn tgt w h =
     \<lparr>scene = scn, sm_target = tgt, monsters = [], worldWidth = w, worldHeight = h,
      spawnPadding = 100, currentSchedule = None, currentWaveIndex = 0,
      scheduleTimer = None, repeatingSpawns = (\<lambda>k. None)\<rparr>"

text \<open>
  The random side is \<^verbatim>\<open>Phaser.Math.Between(0, 3)\<close>: 0 top, 1 right, 2 bottom, 3 (and the
  \<^verbatim>\<open>default\<close> branch) left. The result is the position and the scene after the draws.
  The padded bounds and their clamps are written over the reals: they are sums,
  differences, maxima and minima of the camera's coordinates, the padding and the
  world's size, and exact in doubles for the whole-numbered cameras placed below.
\<close>

definition getRandomSpawnPosition :: "SpawnManager \<Rightarrow> (real \<times> real) \<times> Scene" where
  "getRandomSpawnPosition sm =
     (let cam = camera (scene sm);
          left = scrollX cam - spawnPadding sm;
          right = scrollX cam + cam_width cam + spawnPadding sm;
          top = scrollY cam - spawnPadding sm;
          bottom = scrollY cam + cam_height cam + spawnPadding sm;
          (side, sc1) = Between 0 3 (scene sm)
      in if side = 0 then
           (let (x, sc2) = Between (max 0 left) (min (worldWidth sm) right) sc1
            in ((x, max 0 top), sc2))
         else if side = 1 then
           (let (y, sc2) = Between (max 0 top) (min (worldHeight sm) bottom) sc1
            in ((min (worldWidth sm) right, y), sc2))
         else if side = 2 then
           (let (x, sc2) = Between (max 0 left) (min (worldWidth sm) right) sc1
            in ((x, min (worldHeight sm) bottom), sc2))
         else
           (let (y, sc2) = Between (max 0 top) (min (worldHeight sm) bottom) sc1
            in ((max 0 left, y), sc2)))"

definition spawnMonster ::
  "SpawnManager \<Rightarrow> MonsterType \<Rightarrow> GoblinConfig option \<Rightarrow> Monster option \<times> SpawnManager" where
  "spawnMonster sm ty c =
     (let (spawnPos, sc) = getRandomSpawnPosition sm;
          sm1 = sm\<lparr>scene := sc\<rparr>
      in case ty of
           GoblinType \<Rightarrow>
             (let monster = Goblin_new sc (fst spawnPos) (snd spawnPos) (sm_target sm1)
                              (or_default c no_overrides)
              in (Some monster, sm1\<lparr>monsters := monsters sm1 @ [monster]\<rparr>)))"

text \<open>
  The loop \<^verbatim>\<open>for (let i = 0; i < count; i++) this.spawnMonster(type, config)\<close>, which
  both \<open>executeWave\<close> and the repeating spawn's callback run.
\<close>

function spawnTimes ::
  "MonsterType \<Rightarrow> GoblinConfig option \<Rightarrow> int \<Rightarrow> int \<Rightarrow> SpawnManager \<Rightarrow> SpawnManager" where
  "spawnTimes ty c i n sm =
     (if i < n then spawnTimes ty c (i + 1) n (snd (spawnMonster sm ty c)) else sm)"
  by pat_completeness auto
termination
  by (relation "measure (\<lambda>(ty, c, i, n, sm). nat (n - i))") auto

declare spawnTimes.simps [simp del]

definition executeWave :: "SpawnWave \<Rightarrow> SpawnManager \<Rightarrow> SpawnManager" where
  "executeWave wave sm =
     fold (\<lambda>spawnEvent s.
             spawnTimes (monsterType spawnEvent) (spawn_config spawnEvent) 0
               (spawn_count spawnEvent) s)
       (spawns wave) sm"

definition stopSchedule :: "SpawnManager \<Rightarrow> SpawnManager" where
  "stopSchedule sm =
     (let sm1 = (case scheduleTimer sm of
                   Some h \<Rightarrow> sm\<lparr>scene := timer_destroy h (scene sm), scheduleTimer := None\<rparr>
                 | None \<Rightarrow> sm)
      in sm1\<lparr>currentSchedule := None\<rparr>)"

text \<open>
  \<open>executeNextWave\<close> registers one timer and returns; its continuation is the timer's
  callback. \<^verbatim>\<open>loopDelay || 0\<close> is the delay when it is present and 0 otherwise.
\<close>

definition executeNextWave :: "SpawnManager \<Rightarrow> SpawnManager" where
  "executeNextWave sm =
     (case currentSchedule sm of
        None \<Rightarrow> sm
      | Some sched \<Rightarrow>
          if currentWaveIndex sm \<ge> length (waves sched) then
            (if loop sched = Some True then
               (let sm1 = sm\<lparr>currentWaveIndex := 0\<rparr>;
                    (h, sc) = delayedCall (or_default (loopDelay sched) 0) NextWaveCallback
                                (scene sm1)
                in sm1\<lparr>scene := sc, scheduleTimer := Some h\<rparr>)
             else sm)
          else
            (let wave = waves sched ! currentWaveIndex sm;
                 (h, sc) = delayedCall (delay wave) (WaveCallback wave) (scene sm)
             in sm\<lparr>scene := sc, scheduleTimer := Some h\<rparr>))"

definition startSchedule :: "SpawnSchedule \<Rightarrow> SpawnManager \<Rightarrow> SpawnManager" where
  "startSchedule schedule sm =
     executeNextWave ((stopSchedule sm)\<lparr>currentSchedule := Some schedule, currentWaveIndex := 0\<rparr>)"

definition removeRepeatingSpawn :: "string \<Rightarrow> SpawnManager \<Rightarrow> SpawnManager" where
  "removeRepeatingSpawn ident sm =
     (case repeatingSpawns sm ident of
        Some h \<Rightarrow> sm\<lparr>scene := timer_destroy h (scene sm),
                     repeatingSpawns := (repeatingSpawns sm)(ident := None)\<rparr>
      | None \<Rightarrow> sm)"

definition addRepeatingSpawn :: "string \<Rightarrow> RepeatingSpawnConfig \<Rightarrow> SpawnManager \<Rightarrow> SpawnManager" where
  "addRepeatingSpawn ident cfg sm =
     (let sm1 = removeRepeatingSpawn ident sm;
          (h, sc) = addEvent (rep_interval cfg) True (RepeatingCallback cfg) (scene sm1)
      in sm1\<lparr>scene := sc, repeatingSpawns := (repeatingSpawns sm1)(ident := Some h)\<rparr>)"

text \<open>What each of the three closures does when the engine calls it.\<close>

definition run_callback :: "Callback \<Rightarrow> SpawnManager \<Rightarrow> SpawnManager" where
  "run_callback cb sm =
     (case cb of
        NextWaveCallback \<Rightarrow> executeNextWave sm
      | WaveCallback wave \<Rightarrow>
          (let sm1 = executeWave wave sm;
               sm2 = sm1\<lparr>currentWaveIndex := currentWaveIndex sm1 + 1\<rparr>
           in executeNextWave sm2)
      | RepeatingCallback cfg \<Rightarrow>
          spawnTimes (rep_monsterType cfg) (rep_config cfg) 0 (rep_count cfg) sm)"

text \<open>
  Modelled from the spec: the engine's clock running the pending timers (sections 5
  and 6). The timer due first fires first, timers due at the same time in the order of
  their registration. Firing moves the clock to the due time; a one-shot timer is then
  gone, a repeating one is due again one delay later. \<open>clock_run fuel horizon\<close> fires
  every timer due up to \<open>horizon\<close> and returns the firings (clock time and callback) in
  order, with the final state; \<open>None\<close> means the fuel ran out before the timers did.
\<close>

fun earliest :: "TimerEvent list \<Rightarrow> TimerEvent option" where
  "earliest [] = None"
| "earliest (t # ts) =
     (case earliest ts of
        None \<Rightarrow> Some t
      | Some u \<Rightarrow> if due t \<le> due u then Some t else Some u)"

definition next_due :: "real \<Rightarrow> Scene \<Rightarrow> TimerEvent option" where
  "next_due horizon sc =
     (case earliest (timers sc) of
        None \<Rightarrow> None
      | Some t \<Rightarrow> if due t \<le> horizon then Some t else None)"

definition fire :: "TimerEvent \<Rightarrow> Scene \<Rightarrow> Scene" where
  "fire t sc =
     sc\<lparr>time_now := max (time_now sc) (due t),
        timers :=
          (if timer_loop t
           then map (\<lambda>u. if timer_id u = timer_id t then u\<lparr>due := due u + timer_delay u\<rparr> else u)
                  (timers sc)
           else filter (\<lambda>u. timer_id u \<noteq> timer_id t) (timers sc))\<rparr>"

fun clock_run ::
  "nat \<Rightarrow> real \<Rightarrow> SpawnManager \<Rightarrow> ((real \<times> Callback) list \<times> SpawnManager) option" where
  "clock_run 0 horizon sm =
     (case next_due horizon (scene sm) of
        None \<Rightarrow> Some ([], sm\<lparr>scene := (scene sm)\<lparr>time_now := max (time_now (scene sm)) horizon\<rparr>\<rparr>)
      | Some t \<Rightarrow> None)"
| "clock_run (Suc n) horizon sm =
     (case next_due horizon (scene sm) of
        None \<Rightarrow> Some ([], sm\<lparr>scene := (scene sm)\<lparr>time_now := max (time_now (scene sm)) horizon\<rparr>\<rparr>)
      | Some t \<Rightarrow>
          (let sm1 = sm\<lparr>scene := fire t (scene sm)\<rparr>;
               sm2 = run_callback (callback t) sm1
           in case clock_run n horizon sm2 of
                None \<Rightarrow> None
              | Some (fired, sm3) \<Rightarrow> Some ((time_now (scene sm1), callback t) # fired, sm3)))"

text \<open>The wave executions among the firings: the times at which a wave callback ran.\<close>

fun wave_executions :: "(real \<times> Callback) list \<Rightarrow> (real \<times> SpawnWave) list" where
  "wave_executions [] = []"
| "wave_executions ((t, WaveCallback w) # fs) = (t, w) # wave_executions fs"
| "wave_executions (f # fs) = wave_executions fs"

section \<open>Game: combat resolution\<close>

text \<open>
  \<^verbatim>\<open>Phaser.Math.Distance.Between\<close> is the Euclidean distance. The hit radius is the
  constant 40 of the source.
\<close>

definition Distance_Between :: "real \<Rightarrow> real \<Rightarrow> real \<Rightarrow> real \<Rightarrow> real" where
  "Distance_Between x1 y1 x2 y2 = sqrt ((x1 - x2) * (x1 - x2) + (y1 - y2) * (y1 - y2))"

definition hitRange :: real where
  "hitRange = 40"

text \<open>
  The hit key \<^verbatim>\<open>`${attackSprite.getData("id") || attackSprite.x}_${monster.getSprite().x}`\<close>:
  the sprite's \<^verbatim>\<open>"id"\<close> datum when it is set and not zero, else the sprite's x
  coordinate, paired with the monster sprite's x coordinate.
\<close>

definition hitKey :: "Sprite \<Rightarrow> Monster \<Rightarrow> real \<times> real" where
  "hitKey attackSprite m =
     ((case data_id attackSprite of
         None \<Rightarrow> sprite_x attackSprite
       | Some i \<Rightarrow> if i = 0 then sprite_x attackSprite else i),
      sprite_x (sprite m))"

record Game =
  attacks :: "Attack list"
  spawnManager :: SpawnManager

text \<open>The body of the innermost loop, for one attack sprite and one monster.\<close>

definition check_monster :: "real \<Rightarrow> Sprite \<Rightarrow> Monster \<Rightarrow> fault + (Sprite \<times> Monster)" where
  "check_monster dmg attackSprite m =
     (if \<not> getIsAlive m then Inr (attackSprite, m)
      else if \<not> active (sprite m) then Inr (attackSprite, m)
      else
        (let distance = Distance_Between (sprite_x attackSprite) (sprite_y attackSprite)
                          (sprite_x (sprite m)) (sprite_y (sprite m))
         in if distance < hitRange then
              (let k = hitKey attackSprite m
               in if \<not> getData attackSprite k then
                    (case takeDamage m dmg of
                       Inl e \<Rightarrow> Inl e
                     | Inr m1 \<Rightarrow> Inr (setData k True attackSprite, m1))
                  else Inr (attackSprite, m))
            else Inr (attackSprite, m)))"

fun check_monsters :: "real \<Rightarrow> Sprite \<Rightarrow> Monster list \<Rightarrow> fault + (Sprite \<times> Monster list)" where
  "check_monsters dmg attackSprite [] = Inr (attackSprite, [])"
| "check_monsters dmg attackSprite (m # ms) =
     (case check_monster dmg attackSprite m of
        Inl e \<Rightarrow> Inl e
      | Inr (s1, m1) \<Rightarrow>
          (case check_monsters dmg s1 ms of
             Inl e \<Rightarrow> Inl e
           | Inr (s2, ms1) \<Rightarrow> Inr (s2, m1 # ms1)))"

fun check_sprites :: "real \<Rightarrow> Sprite list \<Rightarrow> Monster list \<Rightarrow> fault + (Sprite list \<times> Monster list)" where
  "check_sprites dmg [] ms = Inr ([], ms)"
| "check_sprites dmg (attackSprite # rest) ms =
     (if \<not> active attackSprite then
        (case check_sprites dmg rest ms of
           Inl e \<Rightarrow> Inl e
         | Inr (rest1, ms1) \<Rightarrow> Inr (attackSprite # rest1, ms1))
      else
        (case check_monsters dmg attackSprite ms of
           Inl e \<Rightarrow> Inl e
         | Inr (s1, ms1) \<Rightarrow>
             (case check_sprites dmg rest ms1 of
                Inl e \<Rightarrow> Inl e
              | Inr (rest1, ms2) \<Rightarrow> Inr (s1 # rest1, ms2))))"

fun check_attacks :: "Attack list \<Rightarrow> Monster list \<Rightarrow> fault + (Attack list \<times> Monster list)" where
  "check_attacks [] ms = Inr ([], ms)"
| "check_attacks (a # rest) ms =
     (case check_sprites (attack_getDamage a) (getActiveAttacks a) ms of
        Inl e \<Rightarrow> Inl e
      | Inr (sprites1, ms1) \<Rightarrow>
          (case check_attacks rest ms1 of
             Inl e \<Rightarrow> Inl e
           | Inr (rest1, ms2) \<Rightarrow> Inr (a\<lparr>activeAttacks := sprites1\<rparr> # rest1, ms2)))"

definition checkAttackCollisions :: "Game \<Rightarrow> fault + Game" where
  "checkAttackCollisions g =
     (case check_attacks (attacks g) (monsters (spawnManager g)) of
        Inl e \<Rightarrow> Inl e
      | Inr (attacks1, monsters1) \<Rightarrow>
          Inr (g\<lparr>attacks := attacks1,
                 spawnManager := (spawnManager g)\<lparr>monsters := monsters1\<rparr>\<rparr>))"

section \<open>Sample states and observations\<close>

text \<open>
  A scene, and a default goblin at (110, 100) whose target, the player, stands at
  (65, 100); \<open>and_then\<close> runs the next call on the result of the last one, and
  \<open>health_alive\<close> reads health and the alive flag off a result.
\<close>

definition sample_scene :: Scene where
  "sample_scene =
     \<lparr>time_now = 0, timers = [], next_timer_id = 0,
      camera = \<lparr>scrollX = 1200, scrollY = 900, cam_width = 800, cam_height = 600\<rparr>,
      random_source = (\<lambda>n. 1 / 2), random_pos = 0\<rparr>"

definition sample_goblin :: Monster where
  "sample_goblin = Goblin_new sample_scene 110 100 (add_sprite 65 100) no_overrides"

definition and_then :: "fault + 'a \<Rightarrow> ('a \<Rightarrow> fault + 'b) \<Rightarrow> fault + 'b" where
  "and_then r f = (case r of Inl e \<Rightarrow> Inl e | Inr v \<Rightarrow> f v)"

definition health_alive :: "fault + Monster \<Rightarrow> (real \<times> bool) option" where
  "health_alive r = (case r of Inl e \<Rightarrow> None | Inr m \<Rightarrow> Some (currentHealth m, isAlive m))"

section \<open>Operation sequences on a monster\<close>





text \<open>A goblin standing exactly on its target, and a scene whose clock shows one minute.\<close>

definition goblin_on_target :: Monster where
  "goblin_on_target = Goblin_new sample_scene 65 100 (add_sprite 65 100) no_overrides"

definition no_axe_overrides :: PartialAxeHackConfig where
  "no_axe_overrides =
     \<lparr>opt_atk_damage = None, opt_interval = None, opt_duration = None, opt_atk_scale = None,
      opt_atk_spriteKey = None, opt_offsetDistance = None, opt_swingArc = None,
      opt_swingSpeed = None\<rparr>"

definition late_scene :: Scene where
  "late_scene = sample_scene\<lparr>time_now := 60000\<rparr>"

section \<open>Operation sequences on an attack\<close>

text \<open>
  The setters of \<open>AxeHackAttack\<close>, the callback of the timer that removes a sprite
  after \<open>duration\<close> (its argument is the sprite's index in \<open>activeAttacks\<close>; an index
  out of range is a sprite no longer in the list), and what can happen to an attack
  after its creation: the calls of the game loop, the player's sprite moving, the
  removal timer and the setters.
\<close>

definition setDamage :: "real \<Rightarrow> Attack \<Rightarrow> Attack" where
  "setDamage d a = a\<lparr>axeConfig := (axeConfig a)\<lparr>atk_damage := d\<rparr>\<rparr>"

definition setInterval :: "real \<Rightarrow> Attack \<Rightarrow> Attack" where
  "setInterval i a = a\<lparr>axeConfig := (axeConfig a)\<lparr>interval := i\<rparr>\<rparr>"

definition setSwingArc :: "real \<Rightarrow> Attack \<Rightarrow> Attack" where
  "setSwingArc degrees a = a\<lparr>axeConfig := (axeConfig a)\<lparr>swingArc := degrees\<rparr>\<rparr>"

definition setSwingSpeed :: "real \<Rightarrow> Attack \<Rightarrow> Attack" where
  "setSwingSpeed ms a = a\<lparr>axeConfig := (axeConfig a)\<lparr>swingSpeed := ms\<rparr>\<rparr>"

definition setScale :: "real \<Rightarrow> Attack \<Rightarrow> Attack" where
  "setScale sc a = a\<lparr>axeConfig := (axeConfig a)\<lparr>atk_scale := sc\<rparr>\<rparr>"

definition setOffsetDistance :: "real \<Rightarrow> Attack \<Rightarrow> Attack" where
  "setOffsetDistance d a = a\<lparr>axeConfig := (axeConfig a)\<lparr>offsetDistance := d\<rparr>\<rparr>"

definition attackExpired :: "nat \<Rightarrow> Attack \<Rightarrow> Attack" where
  "attackExpired i a =
     (if i < length (activeAttacks a)
      then a\<lparr>activeAttacks := take i (activeAttacks a) @ drop (Suc i) (activeAttacks a)\<rparr>
      else a)"

datatype attack_op =
    UpdateDirection real real
  | AttackUpdate real
  | PlayerMoved real real
  | AttackExpired nat
  | SetDamage real
  | SetInterval real
  | SetSwingArc real
  | SetSwingSpeed real
  | SetScale real
  | SetOffsetDistance real

fun apply_attack_op :: "Attack \<Rightarrow> attack_op \<Rightarrow> fault + Attack" where
  "apply_attack_op a (UpdateDirection vx vy) = updateDirection a vx vy"
| "apply_attack_op a (AttackUpdate t) = Inr (attack_update a t)"
| "apply_attack_op a (PlayerMoved x y) = Inr (a\<lparr>player := (player a)\<lparr>sprite_x := x, sprite_y := y\<rparr>\<rparr>)"
| "apply_attack_op a (AttackExpired i) = Inr (attackExpired i a)"
| "apply_attack_op a (SetDamage d) = Inr (setDamage d a)"
| "apply_attack_op a (SetInterval i) = Inr (setInterval i a)"
| "apply_attack_op a (SetSwingArc d) = Inr (setSwingArc d a)"
| "apply_attack_op a (SetSwingSpeed ms) = Inr (setSwingSpeed ms a)"
| "apply_attack_op a (SetScale sc) = Inr (setScale sc a)"
| "apply_attack_op a (SetOffsetDistance d) = Inr (setOffsetDistance d a)"

fun run_attack_ops :: "Attack \<Rightarrow> attack_op list \<Rightarrow> fault + Attack" where
  "run_attack_ops a [] = Inr a"
| "run_attack_ops a (x # xs) =
     (case apply_attack_op a x of Inl e \<Rightarrow> Inl e | Inr a1 \<Rightarrow> run_attack_ops a1 xs)"

fun never_aimed :: "attack_op \<Rightarrow> bool" where
  "never_aimed (UpdateDirection vx vy) = (vx = 0 \<and> vy = 0)"
| "never_aimed x = True"

text \<open>
  A velocity component of moderate size: zero, or of magnitude between \<open>2 ^ -500\<close> and
  \<open>2 ^ 500\<close>, so that neither its square nor a sum of two such squares leaves the range
  in which doubles have 53 significant bits. The speeds of the game are 0 and 200.
\<close>

definition moderate :: "real \<Rightarrow> bool" where
  "moderate v = (v = 0 \<or> (1 / 2 ^ 500 \<le> \<bar>v\<bar> \<and> \<bar>v\<bar> \<le> 2 ^ 500))"

definition sample_attack :: Attack where
  "sample_attack = AxeHackAttack_new sample_scene (add_sprite 65 100) no_axe_overrides"

section \<open>Spawn placement: the world, the camera rectangle and sample managers\<close>

text \<open>
  The camera rectangle lies within the world; a point is in the (closed) camera
  rectangle; the camera rectangle widened by the padding covers the world.
  \<open>draw_near_one\<close> is the double \<open>1 - 2 ^ -52\<close>, a draw of \<^verbatim>\<open>Math.random()\<close> just below 1.
  Three managers of a 3200 by 2400 world with an 800 by 600 camera: one
  with the camera in the world's top left corner, one with the camera against the
  world's right edge whose second draw is \<open>draw_near_one\<close>, and one with the camera in
  the middle of the world.
\<close>

definition camera_in_world :: "SpawnManager \<Rightarrow> bool" where
  "camera_in_world sm =
     (0 \<le> scrollX (camera (scene sm)) \<and> 0 \<le> cam_width (camera (scene sm)) \<and>
      scrollX (camera (scene sm)) + cam_width (camera (scene sm)) \<le> worldWidth sm \<and>
      0 \<le> scrollY (camera (scene sm)) \<and> 0 \<le> cam_height (camera (scene sm)) \<and>
      scrollY (camera (scene sm)) + cam_height (camera (scene sm)) \<le> worldHeight sm)"

definition in_camera :: "Camera \<Rightarrow> real \<times> real \<Rightarrow> bool" where
  "in_camera cam p =
     (scrollX cam \<le> fst p \<and> fst p \<le> scrollX cam + cam_width cam \<and>
      scrollY cam \<le> snd p \<and> snd p \<le> scrollY cam + cam_height cam)"

definition padded_camera_covers_world :: "SpawnManager \<Rightarrow> bool" where
  "padded_camera_covers_world sm =
     (scrollX (camera (scene sm)) - spawnPadding sm \<le> 0 \<and>
      worldWidth sm \<le> scrollX (camera (scene sm)) + cam_width (camera (scene sm)) + spawnPadding sm \<and>
      scrollY (camera (scene sm)) - spawnPadding sm \<le> 0 \<and>
      worldHeight sm \<le> scrollY (camera (scene sm)) + cam_height (camera (scene sm)) + spawnPadding sm)"

definition draw_near_one :: real where
  "draw_near_one = 1 - 1 / 2 ^ 52"

definition corner_manager :: SpawnManager where
  "corner_manager =
     SpawnManager_new
       (sample_scene\<lparr>camera := \<lparr>scrollX = 0, scrollY = 0, cam_width = 800, cam_height = 600\<rparr>,
                     random_source := (\<lambda>n. if n = 0 then 0 else 1 / 2)\<rparr>)
       (add_sprite 400 300) 3200 2400"

definition right_edge_manager :: SpawnManager where
  "right_edge_manager =
     SpawnManager_new
       (sample_scene\<lparr>camera := \<lparr>scrollX = 2400, scrollY = 900, cam_width = 800, cam_height = 600\<rparr>,
                     random_source := (\<lambda>n. if n = 0 then 0 else draw_near_one)\<rparr>)
       (add_sprite 2800 1200) 3200 2400"

definition centre_manager :: SpawnManager where
  "centre_manager = SpawnManager_new sample_scene (add_sprite 1600 1200) 3200 2400"

section \<open>Sample schedules\<close>

text \<open>
  The schedule of the scenario: two waves with delays 0 and 5000, looping with a loop
  delay of 15000; and a spawn request for a number of default goblins.
\<close>

definition looping_schedule :: "SpawnEvent list \<Rightarrow> SpawnEvent list \<Rightarrow> SpawnSchedule" where
  "looping_schedule sp0 sp1 =
     \<lparr>waves = [\<lparr>delay = 0, spawns = sp0\<rparr>, \<lparr>delay = 5000, spawns = sp1\<rparr>],
      loop = Some True, loopDelay = Some 15000\<rparr>"

definition goblins :: "int \<Rightarrow> SpawnEvent" where
  "goblins n = \<lparr>monsterType = GoblinType, spawn_count = n, spawn_config = None\<rparr>"

section \<open>Sample repeating spawns\<close>

text \<open>
  A repeating spawn of default goblins every 5000 ms, and the manager of the game after
  its \<^verbatim>\<open>setupSpawning\<close>: one goblin per interval registered under \<^verbatim>\<open>"goblins"\<close>.
\<close>

definition repeating_goblins :: "int \<Rightarrow> RepeatingSpawnConfig" where
  "repeating_goblins n =
     \<lparr>rep_monsterType = GoblinType, rep_interval = 5000, rep_count = n, rep_config = None\<rparr>"

definition registered_manager :: SpawnManager where
  "registered_manager =
     addRepeatingSpawn ''goblins'' (repeating_goblins 1)
       (SpawnManager_new sample_scene (add_sprite 1600 1200) 3200 2400)"

section \<open>A swing in progress\<close>

text \<open>
  Modelled from the spec: velocity-based movement (section 1). In a step of \<open>dt\<close>
  milliseconds the engine moves every monster's sprite by its velocity (in pixels per
  second) times the elapsed time.

  \<open>swing_game\<close> is a game in which the default attack has just fired, so that its slash
  sprite is at (105, 100), 40 to the right of the player at (65, 100), with the default
  goblin at (110, 100). \<open>monster_states\<close> reads every monster's health and alive flag.
\<close>

definition physics_step :: "real \<Rightarrow> Sprite \<Rightarrow> Sprite" where
  "physics_step dt s =
     s\<lparr>sprite_x := sprite_x s + velocity_x s * dt / 1000,
       sprite_y := sprite_y s + velocity_y s * dt / 1000\<rparr>"

definition engine_step :: "real \<Rightarrow> Game \<Rightarrow> Game" where
  "engine_step dt g =
     g\<lparr>spawnManager := (spawnManager g)\<lparr>monsters :=
          map (\<lambda>m. m\<lparr>sprite := physics_step dt (sprite m)\<rparr>) (monsters (spawnManager g))\<rparr>\<rparr>"

definition swing_game :: Game where
  "swing_game =
     \<lparr>attacks = [attack_update sample_attack 2000],
      spawnManager = centre_manager\<lparr>monsters := [sample_goblin]\<rparr>\<rparr>"

definition monster_states :: "fault + Game \<Rightarrow> (real \<times> bool) list option" where
  "monster_states r =
     (case r of
        Inl e \<Rightarrow> None
      | Inr g \<Rightarrow> Some (map (\<lambda>m. (currentHealth m, isAlive m)) (monsters (spawnManager g))))"

section \<open>Basic facts\<close>

lemma sample_goblin_fields:
  "config sample_goblin = DEFAULT_GOBLIN_CONFIG"
  "currentHealth sample_goblin = 50"
  "lastAttackTime sample_goblin = 0"
  "isAlive sample_goblin"
  "sprite sample_goblin = add_sprite 110 100"
  "target sample_goblin = add_sprite 65 100"
  by (simp_all add: sample_goblin_def Goblin_new_def Monster_new_def merge_config_def
      no_overrides_def or_default_def DEFAULT_GOBLIN_CONFIG_def)


lemma js_div_pos: "0 < b \<Longrightarrow> js_div a b = Inr (a / b)"
  by (simp add: js_div_def)

lemma moveTowardsTarget_eq:
  "moveTowardsTarget m =
     Inr (let dx = sprite_x (target m) - sprite_x (sprite m);
              dy = sprite_y (target m) - sprite_y (sprite m);
              distance = sqrt (dx * dx + dy * dy)
          in if distance > 0 then
               m\<lparr>sprite := setFlipX (dx < 0)
                    (setVelocity (dx / distance * speed (config m))
                       (dy / distance * speed (config m)) (sprite m))\<rparr>
             else m)"
  by (simp add: moveTowardsTarget_def Let_def js_div_pos)

lemma applyKnockback_eq:
  "applyKnockback m =
     Inr (let dx = sprite_x (sprite m) - sprite_x (target m);
              dy = sprite_y (sprite m) - sprite_y (target m);
              distance = sqrt (dx * dx + dy * dy)
          in if distance > 0 then
               m\<lparr>sprite := setVelocity (dx / distance * knockbackForce (config m))
                    (dy / distance * knockbackForce (config m)) (sprite m)\<rparr>
             else m)"
  by (simp add: applyKnockback_def Let_def js_div_pos)

lemma applyKnockback_frame:
  "\<exists>m'. applyKnockback m = Inr m' \<and> currentHealth m' = currentHealth m \<and>
     isAlive m' = isAlive m \<and> config m' = config m \<and> target m' = target m \<and>
     lastAttackTime m' = lastAttackTime m \<and>
     sprite_x (sprite m') = sprite_x (sprite m) \<and> sprite_y (sprite m') = sprite_y (sprite m) \<and>
     active (sprite m') = active (sprite m) \<and> tint (sprite m') = tint (sprite m)"
  by (simp add: applyKnockback_eq Let_def setVelocity_def)


lemma takeDamage_alive:
  assumes "isAlive m"
  shows "\<exists>m'. takeDamage m a = Inr m' \<and> currentHealth m' = currentHealth m - a \<and>
     isAlive m' = (0 < currentHealth m - a) \<and> config m' = config m \<and> target m' = target m \<and>
     lastAttackTime m' = lastAttackTime m \<and>
     sprite_x (sprite m') = sprite_x (sprite m) \<and> sprite_y (sprite m') = sprite_y (sprite m) \<and>
     active (sprite m') = active (sprite m)"
proof -
  let ?m2 = "m\<lparr>currentHealth := currentHealth m - a,
               sprite := setTint 16711680 (sprite m)\<rparr>"
  obtain m3 where k: "applyKnockback ?m2 = Inr m3" "currentHealth m3 = currentHealth ?m2"
    "isAlive m3 = isAlive ?m2" "config m3 = config ?m2" "target m3 = target ?m2"
    "lastAttackTime m3 = lastAttackTime ?m2"
    "sprite_x (sprite m3) = sprite_x (sprite ?m2)" "sprite_y (sprite m3) = sprite_y (sprite ?m2)"
    "active (sprite m3) = active (sprite ?m2)"
    using applyKnockback_frame [of ?m2] by blast
  have "takeDamage m a = Inr (if currentHealth m3 \<le> 0 then die m3 else m3)"
    using assms k(1) by (simp add: takeDamage_def Let_def)
  then show ?thesis
    using assms k by (auto simp: die_def setTint_def)
qed

section \<open>Cooldown gate\<close>

text \<open>
  C2. \<open>canDealDamage t\<close> returns true exactly when \<open>t - lastAttackTime \<ge> attackCooldown\<close>;
  a true return stamps \<open>lastAttackTime := t\<close> and changes nothing else, a false return
  changes nothing at all. Hence of two consecutive calls at \<open>t1\<close> and \<open>t2\<close> with
  \<open>t2 - t1 < attackCooldown\<close>, at most one returns true.
\<close>

theorem canDealDamage_gate:
  "(fst (canDealDamage m t) \<longleftrightarrow> t - lastAttackTime m \<ge> attackCooldown (config m)) \<and>
   (fst (canDealDamage m t) \<longrightarrow> snd (canDealDamage m t) = m\<lparr>lastAttackTime := t\<rparr>) \<and>
   (\<not> fst (canDealDamage m t) \<longrightarrow> snd (canDealDamage m t) = m) \<and>
   (t2 - t1 < attackCooldown (config m) \<longrightarrow>
      \<not> (fst (canDealDamage m t1) \<and> fst (canDealDamage (snd (canDealDamage m t1)) t2)))"
  by (simp add: canDealDamage_def)

theorem canDealDamage_gate_witness:
  "fst (canDealDamage sample_goblin 1000) \<and>
   snd (canDealDamage sample_goblin 1000) = sample_goblin\<lparr>lastAttackTime := 1000\<rparr> \<and>
   \<not> fst (canDealDamage (snd (canDealDamage sample_goblin 1000)) 1500) \<and>
   \<not> fst (canDealDamage sample_goblin 999) \<and>
   snd (canDealDamage sample_goblin 999) = sample_goblin"
  using canDealDamage_gate [of sample_goblin 1000 1500 1000]
        canDealDamage_gate [of sample_goblin 999 0 0]
  by (auto simp add: sample_goblin_fields DEFAULT_GOBLIN_CONFIG_def)

section \<open>Health and the alive flag\<close>




lemma takeDamage_eq:
  "takeDamage m amount =
     Inr (if \<not> isAlive m then m
          else
            (let m2 = m\<lparr>currentHealth := currentHealth m - amount,
                        sprite := setTint 16711680 (sprite m)\<rparr>;
                 dx = sprite_x (sprite m) - sprite_x (target m);
                 dy = sprite_y (sprite m) - sprite_y (target m);
                 distance = sqrt (dx * dx + dy * dy);
                 m3 = (if distance > 0 then
                         m2\<lparr>sprite := setVelocity (dx / distance * knockbackForce (config m))
                              (dy / distance * knockbackForce (config m)) (sprite m2)\<rparr>
                       else m2)
             in if currentHealth m3 \<le> 0 then die m3 else m3))"
  by (simp add: takeDamage_def applyKnockback_eq Let_def setTint_def)






text \<open>
  C6. A monster created with \<open>maxHealth = 50\<close> and hit three times for 20: health 30 and
  alive, then health 10 and alive, then health -10 and dead.
\<close>

theorem three_hits_of_twenty:
  assumes "maxHealth cfg = 50"
  shows "currentHealth (Monster_new scn x y tgt cfg) = 50 \<and> isAlive (Monster_new scn x y tgt cfg) \<and>
    health_alive (takeDamage (Monster_new scn x y tgt cfg) 20) = Some (30, True) \<and>
    health_alive (and_then (takeDamage (Monster_new scn x y tgt cfg) 20) (\<lambda>m. takeDamage m 20))
      = Some (10, True) \<and>
    health_alive (and_then (and_then (takeDamage (Monster_new scn x y tgt cfg) 20)
      (\<lambda>m. takeDamage m 20)) (\<lambda>m. takeDamage m 20)) = Some (- 10, False)"
proof -
  let ?g = "Monster_new scn x y tgt cfg"
  have g: "currentHealth ?g = 50" "isAlive ?g" using assms by (simp_all add: Monster_new_def)
  obtain m1 where m1: "takeDamage ?g 20 = Inr m1" "currentHealth m1 = 30" "isAlive m1"
    using takeDamage_alive [OF g(2), of 20] g(1) by auto
  obtain m2 where m2: "takeDamage m1 20 = Inr m2" "currentHealth m2 = 10" "isAlive m2"
    using takeDamage_alive [OF m1(3), of 20] m1(2) by auto
  obtain m3 where m3: "takeDamage m2 20 = Inr m3" "currentHealth m3 = - 10" "\<not> isAlive m3"
    using takeDamage_alive [OF m2(3), of 20] m2(2) by auto
  show ?thesis using g m1 m2 m3 by (simp add: and_then_def health_alive_def)
qed

theorem three_hits_of_twenty_witness:
  "maxHealth DEFAULT_GOBLIN_CONFIG = 50 \<and>
   sample_goblin = Monster_new sample_scene 110 100 (add_sprite 65 100) DEFAULT_GOBLIN_CONFIG \<and>
   health_alive (takeDamage sample_goblin 20) = Some (30, True) \<and>
   health_alive (and_then (takeDamage sample_goblin 20) (\<lambda>m. takeDamage m 20)) = Some (10, True) \<and>
   health_alive (and_then (and_then (takeDamage sample_goblin 20) (\<lambda>m. takeDamage m 20))
     (\<lambda>m. takeDamage m 20)) = Some (- 10, False)"
proof -
  have h: "maxHealth DEFAULT_GOBLIN_CONFIG = 50" by (simp add: DEFAULT_GOBLIN_CONFIG_def)
  have e: "sample_goblin = Monster_new sample_scene 110 100 (add_sprite 65 100) DEFAULT_GOBLIN_CONFIG"
    by (simp add: sample_goblin_def Goblin_new_def merge_config_def no_overrides_def
        or_default_def DEFAULT_GOBLIN_CONFIG_def)
  show ?thesis
    using three_hits_of_twenty [OF h, of sample_scene 110 100 "add_sprite 65 100"] h e by simp
qed

section \<open>Guarded normalisation\<close>

text \<open>
  C8. When the monster's position is the target's, \<open>moveTowardsTarget\<close> (and \<open>update\<close>,
  which calls it) and \<open>applyKnockback\<close> return the monster unchanged, and \<open>takeDamage\<close>
  leaves its velocity as it was. In every position, none of them divides by zero:
  the guard \<open>distance > 0\<close> covers both divisions.
\<close>

theorem coincident_target_no_op:
  "(sprite_x (sprite m) = sprite_x (target m) \<and> sprite_y (sprite m) = sprite_y (target m) \<longrightarrow>
      moveTowardsTarget m = Inr m \<and> update m = Inr m \<and> applyKnockback m = Inr m \<and>
      (\<exists>m'. takeDamage m amount = Inr m' \<and>
             velocity_x (sprite m') = velocity_x (sprite m) \<and>
             velocity_y (sprite m') = velocity_y (sprite m))) \<and>
   moveTowardsTarget m \<noteq> Inl DivisionByZero \<and> update m \<noteq> Inl DivisionByZero \<and>
   applyKnockback m \<noteq> Inl DivisionByZero \<and> takeDamage m amount \<noteq> Inl DivisionByZero"
proof -
  have total: "moveTowardsTarget m \<noteq> Inl DivisionByZero" "update m \<noteq> Inl DivisionByZero"
    "applyKnockback m \<noteq> Inl DivisionByZero" "takeDamage m amount \<noteq> Inl DivisionByZero"
    by (simp_all add: moveTowardsTarget_eq update_def applyKnockback_eq takeDamage_eq)
  have "moveTowardsTarget m = Inr m \<and> update m = Inr m \<and> applyKnockback m = Inr m \<and>
      (\<exists>m'. takeDamage m amount = Inr m' \<and>
             velocity_x (sprite m') = velocity_x (sprite m) \<and>
             velocity_y (sprite m') = velocity_y (sprite m))"
    if c: "sprite_x (sprite m) = sprite_x (target m) \<and> sprite_y (sprite m) = sprite_y (target m)"
    using c by (simp add: moveTowardsTarget_eq update_def applyKnockback_eq takeDamage_eq
        Let_def die_def setTint_def)
  then show ?thesis using total by blast
qed

theorem coincident_target_no_op_witness:
  "sprite_x (sprite goblin_on_target) = sprite_x (target goblin_on_target) \<and>
   sprite_y (sprite goblin_on_target) = sprite_y (target goblin_on_target) \<and>
   moveTowardsTarget goblin_on_target = Inr goblin_on_target \<and>
   applyKnockback goblin_on_target = Inr goblin_on_target \<and>
   (\<exists>m'. takeDamage goblin_on_target 20 = Inr m' \<and> currentHealth m' = 30 \<and>
          velocity_x (sprite m') = 0 \<and> velocity_y (sprite m') = 0)"
proof -
  have c: "sprite_x (sprite goblin_on_target) = sprite_x (target goblin_on_target) \<and>
           sprite_y (sprite goblin_on_target) = sprite_y (target goblin_on_target)"
    by (simp add: goblin_on_target_def Goblin_new_def Monster_new_def add_sprite_def)
  have v: "velocity_x (sprite goblin_on_target) = 0" "velocity_y (sprite goblin_on_target) = 0"
    "isAlive goblin_on_target" "currentHealth goblin_on_target = 50"
    by (simp_all add: goblin_on_target_def Goblin_new_def Monster_new_def add_sprite_def
        merge_config_def no_overrides_def or_default_def DEFAULT_GOBLIN_CONFIG_def)
  obtain m' where t: "takeDamage goblin_on_target 20 = Inr m'"
      "velocity_x (sprite m') = velocity_x (sprite goblin_on_target)"
      "velocity_y (sprite m') = velocity_y (sprite goblin_on_target)"
    using coincident_target_no_op [of goblin_on_target 20] c by blast
  have "currentHealth m' = 30"
    using takeDamage_alive [OF v(3), of 20] t(1) v(4) by auto
  then show ?thesis
    using coincident_target_no_op [of goblin_on_target 20] c t v by auto
qed

section \<open>Cooldown stamps of fresh objects\<close>

text \<open>
  C9. Whatever the scene's clock shows at creation, a new monster and a new attack have
  their cooldown stamp at 0: the monster's first \<open>canDealDamage t\<close> is true exactly when
  \<open>t \<ge> attackCooldown\<close>, and the attack's first \<open>update t\<close> fires (runs \<open>execute\<close>, which
  adds one sprite) exactly when \<open>t \<ge> interval\<close>.
\<close>

theorem cooldowns_start_at_zero:
  "lastAttackTime (Monster_new scn x y tgt cfg) = 0 \<and>
   lastAttackTime (Goblin_new scn x y tgt gc) = 0 \<and>
   attack_lastAttackTime (AxeHackAttack_new scn p c) = 0 \<and>
   (fst (canDealDamage (Monster_new scn x y tgt cfg) t) \<longleftrightarrow> t \<ge> attackCooldown cfg) \<and>
   (fst (canDealDamage (Goblin_new scn x y tgt gc) t) \<longleftrightarrow>
      t \<ge> or_default (opt_attackCooldown gc) 1000) \<and>
   (t \<ge> or_default (opt_interval c) 2000 \<longrightarrow>
      attack_update (AxeHackAttack_new scn p c) t =
        (execute (AxeHackAttack_new scn p c))\<lparr>attack_lastAttackTime := t\<rparr>) \<and>
   (t < or_default (opt_interval c) 2000 \<longrightarrow>
      attack_update (AxeHackAttack_new scn p c) t = AxeHackAttack_new scn p c) \<and>
   (length (activeAttacks (attack_update (AxeHackAttack_new scn p c) t)) = 1 \<longleftrightarrow>
      t \<ge> or_default (opt_interval c) 2000) \<and>
   (length (activeAttacks (attack_update (AxeHackAttack_new scn p c) t)) = 0 \<longleftrightarrow>
      t < or_default (opt_interval c) 2000)"
  by (auto simp: Monster_new_def Goblin_new_def AxeHackAttack_new_def canDealDamage_def
      attack_update_def execute_def Let_def merge_config_def merge_axe_config_def
      DEFAULT_GOBLIN_CONFIG_def DEFAULT_AXE_HACK_CONFIG_def)

theorem cooldowns_start_at_zero_witness:
  "fst (canDealDamage (Goblin_new late_scene 110 100 (add_sprite 65 100) no_overrides) 60000) \<and>
   \<not> fst (canDealDamage (Goblin_new late_scene 110 100 (add_sprite 65 100) no_overrides) 999) \<and>
   length (activeAttacks (attack_update
     (AxeHackAttack_new late_scene (add_sprite 65 100) no_axe_overrides) 60000)) = 1 \<and>
   length (activeAttacks (attack_update
     (AxeHackAttack_new late_scene (add_sprite 65 100) no_axe_overrides) 1999)) = 0"
proof -
  let ?g = "Goblin_new late_scene 110 100 (add_sprite 65 100) no_overrides"
  let ?a = "AxeHackAttack_new late_scene (add_sprite 65 100) no_axe_overrides"
  have d: "or_default (opt_attackCooldown no_overrides) 1000 = (1000::real)"
    "or_default (opt_interval no_axe_overrides) 2000 = (2000::real)"
    by (simp_all add: no_overrides_def no_axe_overrides_def or_default_def)
  have g: "fst (canDealDamage ?g t) \<longleftrightarrow> t \<ge> 1000" for t
    using cooldowns_start_at_zero [of late_scene 110 100 "add_sprite 65 100" DEFAULT_GOBLIN_CONFIG
      no_overrides "add_sprite 65 100" no_axe_overrides t] by (elim conjE) (simp only: d)
  have a1: "length (activeAttacks (attack_update ?a t)) = 1 \<longleftrightarrow> t \<ge> 2000" for t
    using cooldowns_start_at_zero [of late_scene 110 100 "add_sprite 65 100" DEFAULT_GOBLIN_CONFIG
      no_overrides "add_sprite 65 100" no_axe_overrides t] by (elim conjE) (simp only: d)
  have a0: "length (activeAttacks (attack_update ?a t)) = 0 \<longleftrightarrow> t < 2000" for t
    using cooldowns_start_at_zero [of late_scene 110 100 "add_sprite 65 100" DEFAULT_GOBLIN_CONFIG
      no_overrides "add_sprite 65 100" no_axe_overrides t] by (elim conjE) (simp only: d)
  have "fst (canDealDamage ?g 60000)" using g [of 60000] by simp
  moreover have "\<not> fst (canDealDamage ?g 999)" using g [of 999] by simp
  moreover have "length (activeAttacks (attack_update ?a 60000)) = 1" using a1 [of 60000] by simp
  moreover have "length (activeAttacks (attack_update ?a 1999)) = 0" using a0 [of 1999] by simp
  ultimately show ?thesis by blast
qed

section \<open>Rounding to doubles\<close>

text \<open>
  Rounding moves a number by at most half a unit in the last place; a number with at
  most 53 significant bits is a double and is left as it is; in the range of normal
  doubles the relative error is at most \<open>2 ^ -53\<close>; numbers below \<open>2 ^ -1075\<close> round to 0
  and numbers from \<open>2 ^ 1024\<close> on to infinity.
\<close>

lemma round_half_even_near: "\<bar>of_int (round_half_even y) - y\<bar> \<le> 1 / 2"
proof -
  have "of_int \<lfloor>y\<rfloor> \<le> y" "y < of_int \<lfloor>y\<rfloor> + 1" by linarith+
  then show ?thesis unfolding round_half_even_def by (auto simp: abs_le_iff)
qed

lemma round_half_even_int [simp]: "round_half_even (of_int n) = n"
  by (simp add: round_half_even_def)

lemma round_half_even_ge: "of_int k \<le> y \<Longrightarrow> k \<le> round_half_even y"
proof -
  assume "of_int k \<le> y"
  then have "k \<le> \<lfloor>y\<rfloor>" by (simp add: le_floor_iff)
  then show ?thesis unfolding round_half_even_def by auto
qed

lemma round_half_even_le: "y \<le> of_int k \<Longrightarrow> round_half_even y \<le> k"
proof (cases "y = of_int k")
  case True
  then show ?thesis by simp
next
  case False
  assume "y \<le> of_int k"
  then have "y < of_int k" using False by simp
  then have "\<lfloor>y\<rfloor> < k" by (simp add: floor_less_iff)
  then show ?thesis unfolding round_half_even_def by auto
qed

lemma scaled_round_error:
  assumes "0 < (q::real)"
  shows "\<bar>of_int (round_half_even (x / q)) * q - x\<bar> \<le> q / 2"
proof -
  let ?n = "of_int (round_half_even (x / q)) :: real"
  have "?n * q - x = (?n - x / q) * q" using assms by (simp add: left_diff_distrib)
  then have "\<bar>?n * q - x\<bar> = \<bar>?n - x / q\<bar> * q" using assms by (simp add: abs_mult)
  also have "\<dots> \<le> 1 / 2 * q"
    using round_half_even_near [of "x / q"] assms by (intro mult_right_mono) auto
  finally show ?thesis by simp
qed

lemma ulp_shift:
  "(2::real) powr (of_int (e - 52)) * 2 ^ n = 2 powr (of_int (e - 52 + int n))"
proof -
  have "(2::real) ^ n = 2 powr (real n)" by (simp add: powr_realpow)
  then have "(2::real) powr (of_int (e - 52)) * 2 ^ n =
      2 powr (of_int (e - 52)) * 2 powr (real n)" by simp
  also have "\<dots> = 2 powr (of_int (e - 52) + real n)" by (simp only: powr_add)
  also have "of_int (e - 52) + real n = real_of_int (e - 52 + int n)" by simp
  finally show ?thesis .
qed

lemma binary64_normal:
  assumes e: "- 1022 \<le> e" "e \<le> 1022" and q: "q = 2 powr (of_int (e - 52))"
    and lo: "2 ^ 52 * q \<le> \<bar>x\<bar>" and hi: "\<bar>x\<bar> < 2 ^ 53 * q"
  shows "binary64 x = Finite (of_int (round_half_even (x / q)) * q)"
    and "\<bar>of_int (round_half_even (x / q)) * q - x\<bar> \<le> q / 2"
    and "\<bar>of_int (round_half_even (x / q)) * q\<bar> \<le> 2 ^ 53 * q"
proof -
  let ?n = "round_half_even (x / q)"
  let ?r = "of_int ?n * q"
  have qpos: "0 < q" using q by simp
  have "q * 2 ^ 52 = 2 powr (of_int (e - 52 + int 52))" unfolding q by (rule ulp_shift)
  then have p52: "2 ^ 52 * q = 2 powr (of_int e)" by (simp add: mult.commute)
  have "q * 2 ^ 53 = 2 powr (of_int (e - 52 + int 53))" unfolding q by (rule ulp_shift)
  moreover have "e - 52 + int 53 = e + 1" by simp
  ultimately have p53: "2 ^ 53 * q = 2 powr (of_int (e + 1))" by (simp only: mult.commute)
  have x0: "x \<noteq> 0" using lo qpos by auto
  have "\<lfloor>log 2 \<bar>x\<bar>\<rfloor> = e"
    using x0 lo hi unfolding p52 p53 by (subst floor_log_eq_powr_iff) auto
  then have E: "max \<lfloor>log 2 \<bar>x\<bar>\<rfloor> (- 1022) = e" using e by simp
  show err: "\<bar>?r - x\<bar> \<le> q / 2" using scaled_round_error [OF qpos] .
  have "x / q \<le> 2 ^ 53" "- (2 ^ 53) \<le> x / q"
    using hi qpos by (auto simp: field_simps abs_less_iff)
  then have "?n \<le> 2 ^ 53" "- (2 ^ 53) \<le> ?n"
    using round_half_even_le [of "x / q" "2 ^ 53"] round_half_even_ge [of "- (2 ^ 53)" "x / q"]
    by auto
  then have "\<bar>real_of_int ?n\<bar> \<le> 2 ^ 53" by (simp add: abs_le_iff)
  then have "\<bar>real_of_int ?n\<bar> * q \<le> 2 ^ 53 * q" using qpos by (intro mult_right_mono) auto
  then show bound: "\<bar>?r\<bar> \<le> 2 ^ 53 * q" using qpos by (simp add: abs_mult)
  have "2 powr (of_int (e + 1)) \<le> (2::real) powr (of_int 1023)"
    using e by (intro powr_mono) auto
  also have "\<dots> = 2 ^ 1023" by (simp add: powr_realpow [symmetric])
  also have "\<dots> < (2::real) ^ 1024" by simp
  finally have top: "2 ^ 53 * q < (2::real) ^ 1024" unfolding p53 .
  have "\<bar>?r\<bar> < 2 ^ 1024" using bound top by linarith
  then have "\<not> 2 ^ 1024 \<le> ?r" "\<not> ?r \<le> - (2 ^ 1024)" by linarith+
  then show "binary64 x = Finite ?r"
    using x0 E q by (simp add: binary64_def Let_def)
qed


lemma round_half_even_eq:
  assumes "of_int n - 1 / 2 < y" and "y < of_int n + 1 / 2"
  shows "round_half_even y = n"
proof (cases "of_int n \<le> y")
  case True
  then have "\<lfloor>y\<rfloor> = n" using assms(2) by (intro floor_unique) auto
  then show ?thesis using assms(2) by (simp add: round_half_even_def)
next
  case False
  then have "\<lfloor>y\<rfloor> = n - 1" using assms(1) by (intro floor_unique) auto
  then show ?thesis using assms(1) False by (simp add: round_half_even_def)
qed

lemma binary64_zero [simp]: "binary64 0 = Finite 0"
  by (simp add: binary64_def)

lemma ulp_frac: "(2::real) powr (of_int (52 - int p - 52)) = 1 / 2 ^ p"
proof -
  have "(2::real) powr (of_int (52 - int p - 52)) = 2 powr (- real p)" by simp
  also have "\<dots> = 1 / 2 ^ p" by (simp add: powr_minus powr_realpow field_simps)
  finally show ?thesis .
qed

lemma binary64_frac:
  assumes "p \<le> 1074" and "2 ^ 52 \<le> \<bar>x\<bar> * 2 ^ p" and "\<bar>x\<bar> * 2 ^ p < 2 ^ 53"
  shows "binary64 x = Finite (of_int (round_half_even (x * 2 ^ p)) / 2 ^ p)"
proof -
  let ?q = "1 / 2 ^ p :: real"
  have q: "?q = 2 powr (of_int (52 - int p - 52))" by (simp only: ulp_frac)
  have e: "- 1022 \<le> 52 - int p" "52 - int p \<le> 1022" using assms(1) by simp_all
  have lo: "2 ^ 52 * ?q \<le> \<bar>x\<bar>" using assms(2) by (simp add: field_simps)
  have hi: "\<bar>x\<bar> < 2 ^ 53 * ?q" using assms(3) by (simp add: field_simps)
  have "binary64 x = Finite (of_int (round_half_even (x / ?q)) * ?q)"
    using e q lo hi by (rule binary64_normal(1))
  then show ?thesis by simp
qed

lemma binary64_exact:
  assumes "p \<le> 1074" and "2 ^ 52 \<le> \<bar>x\<bar> * 2 ^ p" and "\<bar>x\<bar> * 2 ^ p < 2 ^ 53"
    and "x * 2 ^ p \<in> \<int>"
  shows "binary64 x = Finite x"
proof -
  obtain k where k: "x * 2 ^ p = of_int k" using assms(4) by (auto elim: Ints_cases)
  have "binary64 x = Finite (of_int (round_half_even (x * 2 ^ p)) / 2 ^ p)"
    using assms(1,2,3) by (rule binary64_frac)
  also have "of_int (round_half_even (x * 2 ^ p)) / 2 ^ p = x"
    unfolding k round_half_even_int using k by (simp add: field_simps)
  finally show ?thesis .
qed

lemma binary64_relative:
  assumes "1 / 2 ^ 1022 \<le> \<bar>x\<bar>" and "\<bar>x\<bar> < 2 ^ 1023"
  shows "\<exists>r. binary64 x = Finite r \<and> \<bar>r - x\<bar> \<le> \<bar>x\<bar> / 2 ^ 53"
proof -
  define e where "e = \<lfloor>log 2 \<bar>x\<bar>\<rfloor>"
  define q :: real where "q = 2 powr (of_int (e - 52))"
  have "(0::real) < 1 / 2 ^ 1022" by simp
  then have xpos: "0 < \<bar>x\<bar>" using assms(1) by linarith
  have b: "2 powr (of_int e) \<le> \<bar>x\<bar>" "\<bar>x\<bar> < 2 powr (of_int (e + 1))"
    using floor_log_eq_powr_iff [of "\<bar>x\<bar>" 2 e] xpos e_def by auto
  have m: "(2::real) powr (of_int (- 1022)) = 1 / 2 ^ 1022"
    by (simp add: powr_minus powr_realpow [symmetric] field_simps)
  have M: "(2::real) powr (of_int 1023) = 2 ^ 1023"
    by (simp add: powr_realpow [symmetric])
  have "(2::real) powr (of_int (- 1022)) < 2 powr (of_int (e + 1))"
    using assms(1) b(2) unfolding m by linarith
  then have e1: "- 1022 \<le> e" by simp
  have up: "(2::real) powr (of_int e) < 2 powr (of_int 1023)"
    using assms(2) b(1) unfolding M by linarith
  have "real_of_int e < real_of_int 1023"
  proof (rule ccontr)
    assume "\<not> real_of_int e < real_of_int 1023"
    then have "real_of_int 1023 \<le> real_of_int e" by linarith
    then have "(2::real) powr (of_int 1023) \<le> 2 powr (of_int e)" by (intro powr_mono) auto
    then show False using up by linarith
  qed
  then have e2: "e \<le> 1022" by simp
  have "q * 2 ^ 52 = 2 powr (of_int (e - 52 + int 52))" unfolding q_def by (rule ulp_shift)
  then have p52: "2 ^ 52 * q = 2 powr (of_int e)" by (simp add: mult.commute)
  have "q * 2 ^ 53 = 2 powr (of_int (e - 52 + int 53))" unfolding q_def by (rule ulp_shift)
  moreover have "e - 52 + int 53 = e + 1" by simp
  ultimately have p53: "2 ^ 53 * q = 2 powr (of_int (e + 1))" by (simp only: mult.commute)
  have lo: "2 ^ 52 * q \<le> \<bar>x\<bar>" using b(1) p52 by simp
  have hi: "\<bar>x\<bar> < 2 ^ 53 * q" using b(2) p53 by simp
  note n = binary64_normal [OF e1 e2 q_def lo hi]
  have "q / 2 = (2 ^ 52 * q) / 2 ^ 53" by simp
  also have "\<dots> \<le> \<bar>x\<bar> / 2 ^ 53" using lo by (intro divide_right_mono) auto
  finally have "q / 2 \<le> \<bar>x\<bar> / 2 ^ 53" .
  then show ?thesis using n(1,2) by (intro exI conjI) (assumption, linarith)
qed


lemma binary64_underflow:
  assumes "\<bar>x\<bar> < 1 / 2 ^ 1075"
  shows "binary64 x = Finite 0"
proof (cases "x = 0")
  case True
  then show ?thesis by simp
next
  case False
  then have xpos: "0 < \<bar>x\<bar>" by simp
  have m: "(2::real) powr (of_int (- 1021)) = 1 / 2 ^ 1021"
    by (simp add: powr_minus powr_realpow [symmetric] field_simps)
  have "(1::real) / 2 ^ 1075 \<le> 1 / 2 ^ 1021" by simp
  then have "\<bar>x\<bar> < 2 powr (of_int (- 1021))" using assms unfolding m by linarith
  then have "log 2 \<bar>x\<bar> < of_int (- 1021)" using xpos by (simp only: log_less_iff [of 2, simplified, OF xpos])
  then have "\<lfloor>log 2 \<bar>x\<bar>\<rfloor> < - 1021" by (simp only: floor_less_iff)
  then have E: "max \<lfloor>log 2 \<bar>x\<bar>\<rfloor> (- 1022) = - 1022" by simp
  have q: "(2::real) powr (of_int (- 1022 - 52)) = 1 / 2 ^ 1074"
    by (simp add: powr_minus powr_realpow [symmetric] field_simps)
  have "\<bar>x * 2 ^ 1074\<bar> < 1 / 2" using assms by (simp add: abs_mult field_simps)
  then have "round_half_even (x * 2 ^ 1074) = 0"
    by (intro round_half_even_eq) (auto simp: abs_less_iff)
  then have "round_half_even (x / (1 / 2 ^ 1074)) = 0" by simp
  then show ?thesis using False unfolding binary64_def Let_def E q by simp
qed

lemma binary64_overflow:
  assumes "2 ^ 1024 \<le> x"
  shows "binary64 x = PlusInfinity"
proof -
  have "(0::real) < 2 ^ 1024" by simp
  then have xpos: "0 < x" using assms by linarith
  define e where "e = \<lfloor>log 2 \<bar>x\<bar>\<rfloor>"
  define q :: real where "q = 2 powr (of_int (e - 52))"
  have b: "2 powr (of_int e) \<le> x" "x < 2 powr (of_int (e + 1))"
    using floor_log_eq_powr_iff [of "\<bar>x\<bar>" 2 e] xpos e_def by auto
  have M: "(2::real) powr (of_int 1024) = 2 ^ 1024"
    by (simp add: powr_realpow [symmetric])
  have e1: "1024 \<le> e"
  proof (rule ccontr)
    assume "\<not> 1024 \<le> e"
    then have "real_of_int (e + 1) \<le> real_of_int 1024" by simp
    then have "(2::real) powr (of_int (e + 1)) \<le> 2 powr (of_int 1024)" by (intro powr_mono) auto
    then show False using b(2) assms unfolding M by linarith
  qed
  then have E: "max e (- 1022) = e" by simp
  have qpos: "0 < q" by (simp add: q_def)
  have "q * 2 ^ 52 = 2 powr (of_int (e - 52 + int 52))" unfolding q_def by (rule ulp_shift)
  then have p52: "2 ^ 52 * q = 2 powr (of_int e)" by (simp add: mult.commute)
  have "2 ^ 52 * q \<le> x" using b(1) p52 by simp
  then have "of_int (2 ^ 52) \<le> x / q" using qpos by (simp add: field_simps)
  then have "2 ^ 52 \<le> round_half_even (x / q)" by (rule round_half_even_ge)
  then have "(2::real) ^ 52 \<le> of_int (round_half_even (x / q))"
    by (metis of_int_le_iff of_int_numeral of_int_power)
  then have "2 ^ 52 * q \<le> of_int (round_half_even (x / q)) * q"
    using qpos by (intro mult_right_mono) auto
  moreover have "(2::real) powr (of_int 1024) \<le> 2 powr (of_int e)"
    using e1 by (intro powr_mono) auto
  ultimately have "2 ^ 1024 \<le> of_int (round_half_even (x / q)) * q"
    unfolding p52 M by linarith
  then show ?thesis
    using xpos unfolding binary64_def Let_def e_def [symmetric] E q_def [symmetric] by simp
qed

lemma normalise_error:
  fixes vx vy a b s l x y u P :: real
  assumes u: "u = 1 / 2 ^ 53" and P: "P = vx * vx + vy * vy" and Ppos: "0 < P"
    and a: "\<bar>a - vx * vx\<bar> \<le> (vx * vx) * u" and b: "\<bar>b - vy * vy\<bar> \<le> (vy * vy) * u"
    and s: "\<bar>s - (a + b)\<bar> \<le> \<bar>a + b\<bar> * u"
    and l: "\<bar>l - sqrt s\<bar> \<le> \<bar>sqrt s\<bar> * u"
    and x: "\<bar>x - vx / l\<bar> \<le> \<bar>vx / l\<bar> * u"
    and y: "\<bar>y - vy / l\<bar> \<le> \<bar>vy / l\<bar> * u"
  shows "\<bar>x - vx / sqrt P\<bar> \<le> 1 / 2 ^ 50"
    and "\<bar>y - vy / sqrt P\<bar> \<le> 1 / 2 ^ 50"
    and "\<bar>sqrt (x * x + y * y) - 1\<bar> \<le> 1 / 2 ^ 50"
proof -
  define L where "L = sqrt P"
  have Lpos: "0 < L" using Ppos by (simp add: L_def)
  have LL: "L * L = P" using Ppos by (simp add: L_def)
  have u0: "0 < u" "u < 1" using u by simp_all
  have sq: "0 \<le> vx * vx" "0 \<le> vy * vy" by simp_all
  have ab1: "(1 - u) * P \<le> a + b" and ab2: "a + b \<le> (1 + u) * P"
    using a b unfolding P by (simp_all add: abs_le_iff algebra_simps)
  have "0 \<le> (1 - u) * P" using u0 Ppos by simp
  then have abpos: "0 \<le> a + b" using ab1 by linarith
  have s1: "(1 - u) * (a + b) \<le> s" and s2: "s \<le> (1 + u) * (a + b)"
    using s abpos by (simp_all add: abs_le_iff algebra_simps)
  have s1': "((1 - u) * L) * ((1 - u) * L) \<le> s"
  proof -
    have "(1 - u) * ((1 - u) * P) \<le> (1 - u) * (a + b)"
      using ab1 u0 by (intro mult_left_mono) auto
    moreover have "((1 - u) * L) * ((1 - u) * L) = (1 - u) * ((1 - u) * (L * L))" by simp
    ultimately show ?thesis using s1 unfolding LL by linarith
  qed
  have s2': "s \<le> ((1 + u) * L) * ((1 + u) * L)"
  proof -
    have "(1 + u) * (a + b) \<le> (1 + u) * ((1 + u) * P)"
      using ab2 u0 by (intro mult_left_mono) auto
    moreover have "((1 + u) * L) * ((1 + u) * L) = (1 + u) * ((1 + u) * (L * L))" by simp
    ultimately show ?thesis using s2 unfolding LL by linarith
  qed
  have r1: "(1 - u) * L \<le> sqrt s"
    using s1' u0 Lpos by (intro real_le_rsqrt) (simp add: power2_eq_square)
  have r2: "sqrt s \<le> (1 + u) * L"
    using s2' u0 Lpos by (intro real_le_lsqrt) (auto simp: power2_eq_square intro: order_trans [OF _ s1'])
  have "0 < (1 - u) * L" using u0 Lpos by simp
  then have rpos: "0 < sqrt s" using r1 by linarith
  have l1: "(1 - u) * sqrt s \<le> l" and l2: "l \<le> (1 + u) * sqrt s"
    using l rpos by (simp_all add: abs_le_iff algebra_simps)
  have l1': "(1 - u) * ((1 - u) * L) \<le> l"
  proof -
    have "(1 - u) * ((1 - u) * L) \<le> (1 - u) * sqrt s"
      using r1 u0 by (intro mult_left_mono) auto
    then show ?thesis using l1 by linarith
  qed
  have l2': "l \<le> (1 + u) * ((1 + u) * L)"
  proof -
    have "(1 + u) * sqrt s \<le> (1 + u) * ((1 + u) * L)"
      using r2 u0 by (intro mult_left_mono) auto
    then show ?thesis using l2 by linarith
  qed
  have "0 < (1 - u) * ((1 - u) * L)" using u0 Lpos by simp
  then have lpos: "0 < l" using l1' by linarith
  define t where "t = L / l"
  have tpos: "0 < t" using Lpos lpos by (simp add: t_def)
  have t1: "t \<le> 1 + 3 * u"
  proof -
    have "(1 - u) * (1 - u) * (1 + 3 * u) \<ge> 1" unfolding u by simp
    then have "L * 1 \<le> L * ((1 - u) * (1 - u) * (1 + 3 * u))"
      using Lpos by (intro mult_left_mono) auto
    also have "\<dots> = ((1 - u) * ((1 - u) * L)) * (1 + 3 * u)" by (simp add: algebra_simps)
    also have "\<dots> \<le> l * (1 + 3 * u)" using l1' u0 by (intro mult_right_mono) auto
    finally show ?thesis using lpos by (simp add: t_def field_simps)
  qed
  have t2: "1 - 3 * u \<le> t"
  proof -
    have "(1 + u) * (1 + u) * (1 - 3 * u) \<le> 1" unfolding u by simp
    then have "L * ((1 + u) * (1 + u) * (1 - 3 * u)) \<le> L * 1"
      using Lpos by (intro mult_left_mono) auto
    moreover have "l * (1 - 3 * u) \<le> ((1 + u) * ((1 + u) * L)) * (1 - 3 * u)"
      using l2' unfolding u by (intro mult_right_mono) auto
    ultimately have "l * (1 - 3 * u) \<le> L" by (simp add: algebra_simps)
    then show ?thesis using lpos by (simp add: t_def field_simps)
  qed
  have comp: "\<bar>z - v / L\<bar> \<le> 1 / 2 ^ 50 \<and> (1 - u) * t * \<bar>v / L\<bar> \<le> \<bar>z\<bar> \<and> \<bar>z\<bar> \<le> (1 + u) * t * \<bar>v / L\<bar>"
    if z: "\<bar>z - v / l\<bar> \<le> \<bar>v / l\<bar> * u" and v: "v * v \<le> P" for z v
  proof -
    define c where "c = v / L"
    have vl: "v / l = c * t" using Lpos lpos by (simp add: c_def t_def)
    have "c * c = (v * v) / P" using LL by (simp add: c_def)
    also have "\<dots> \<le> 1" using v Ppos by simp
    finally have "c * c \<le> 1" .
    then have c1: "\<bar>c\<bar> \<le> 1"
      by (metis abs_le_square_iff abs_one mult.right_neutral power2_eq_square one_power2)
    have zc: "\<bar>z - c * t\<bar> \<le> \<bar>c\<bar> * t * u" using z tpos unfolding vl by (simp add: abs_mult)
    have ct: "\<bar>c\<bar> * t \<le> 1 * (1 + 3 * u)" using c1 t1 tpos by (intro mult_mono) auto
    have "\<bar>c * t - c\<bar> = \<bar>c\<bar> * \<bar>t - 1\<bar>" by (simp add: abs_mult [symmetric] algebra_simps)
    also have "\<dots> \<le> 1 * (3 * u)" using c1 t1 t2 by (intro mult_mono) (auto simp: abs_le_iff)
    finally have d: "\<bar>c * t - c\<bar> \<le> 3 * u" by simp
    have "\<bar>c\<bar> * t * u \<le> (1 + 3 * u) * u" using ct u0 by (intro mult_right_mono) auto
    then have "\<bar>z - c\<bar> \<le> (1 + 3 * u) * u + 3 * u" using zc d by linarith
    also have "\<dots> \<le> 1 / 2 ^ 50" unfolding u by simp
    finally have g1: "\<bar>z - c\<bar> \<le> 1 / 2 ^ 50" .
    have "\<bar>c * t\<bar> - \<bar>c\<bar> * t * u \<le> \<bar>z\<bar>" "\<bar>z\<bar> \<le> \<bar>c * t\<bar> + \<bar>c\<bar> * t * u" using zc by linarith+
    then have "(1 - u) * t * \<bar>c\<bar> \<le> \<bar>z\<bar>" "\<bar>z\<bar> \<le> (1 + u) * t * \<bar>c\<bar>"
      using tpos by (simp_all add: abs_mult algebra_simps)
    then show ?thesis using g1 unfolding c_def by simp
  qed
  have vxP: "vx * vx \<le> P" and vyP: "vy * vy \<le> P" unfolding P by simp_all
  note cx = comp [OF x vxP] and cy = comp [OF y vyP]
  show "\<bar>x - vx / sqrt P\<bar> \<le> 1 / 2 ^ 50" using cx by (simp add: L_def)
  show "\<bar>y - vy / sqrt P\<bar> \<le> 1 / 2 ^ 50" using cy by (simp add: L_def)
  have unit: "\<bar>vx / L\<bar> * \<bar>vx / L\<bar> + \<bar>vy / L\<bar> * \<bar>vy / L\<bar> = 1"
  proof -
    have "\<bar>vx / L\<bar> * \<bar>vx / L\<bar> + \<bar>vy / L\<bar> * \<bar>vy / L\<bar> = (vx * vx + vy * vy) / (L * L)"
      by (simp add: abs_mult [symmetric] add_divide_distrib del: abs_mult)
    also have "\<dots> = P / P" unfolding LL P ..
    also have "\<dots> = 1" using Ppos by simp
    finally show ?thesis .
  qed
  have low: "((1 - u) * t) * ((1 - u) * t) \<le> x * x + y * y"
  proof -
    have k: "0 \<le> (1 - u) * t" using u0 tpos by simp
    have "((1 - u) * t * \<bar>vx / L\<bar>) * ((1 - u) * t * \<bar>vx / L\<bar>) \<le> \<bar>x\<bar> * \<bar>x\<bar>"
      using cx k by (intro mult_mono) auto
    moreover have "((1 - u) * t * \<bar>vy / L\<bar>) * ((1 - u) * t * \<bar>vy / L\<bar>) \<le> \<bar>y\<bar> * \<bar>y\<bar>"
      using cy k by (intro mult_mono) auto
    moreover have "((1 - u) * t * \<bar>vx / L\<bar>) * ((1 - u) * t * \<bar>vx / L\<bar>) +
        ((1 - u) * t * \<bar>vy / L\<bar>) * ((1 - u) * t * \<bar>vy / L\<bar>) =
        ((1 - u) * t) * ((1 - u) * t) * (\<bar>vx / L\<bar> * \<bar>vx / L\<bar> + \<bar>vy / L\<bar> * \<bar>vy / L\<bar>)"
      by (simp only: algebra_simps)
    ultimately show ?thesis unfolding unit by (simp del: abs_mult abs_divide)
  qed
  have high: "x * x + y * y \<le> ((1 + u) * t) * ((1 + u) * t)"
  proof -
    have k: "0 \<le> (1 + u) * t" using u0 tpos by simp
    have "\<bar>x\<bar> * \<bar>x\<bar> \<le> ((1 + u) * t * \<bar>vx / L\<bar>) * ((1 + u) * t * \<bar>vx / L\<bar>)"
      using cx k by (intro mult_mono) auto
    moreover have "\<bar>y\<bar> * \<bar>y\<bar> \<le> ((1 + u) * t * \<bar>vy / L\<bar>) * ((1 + u) * t * \<bar>vy / L\<bar>)"
      using cy k by (intro mult_mono) auto
    moreover have "((1 + u) * t * \<bar>vx / L\<bar>) * ((1 + u) * t * \<bar>vx / L\<bar>) +
        ((1 + u) * t * \<bar>vy / L\<bar>) * ((1 + u) * t * \<bar>vy / L\<bar>) =
        ((1 + u) * t) * ((1 + u) * t) * (\<bar>vx / L\<bar> * \<bar>vx / L\<bar> + \<bar>vy / L\<bar> * \<bar>vy / L\<bar>)"
      by (simp only: algebra_simps)
    ultimately show ?thesis unfolding unit by (simp del: abs_mult abs_divide)
  qed
  have g1: "(1 - u) * t \<le> sqrt (x * x + y * y)"
    using low u0 tpos by (intro real_le_rsqrt) (simp add: power2_eq_square)
  have g2: "sqrt (x * x + y * y) \<le> (1 + u) * t"
    using high u0 tpos by (intro real_le_lsqrt) (auto simp: power2_eq_square)
  have "(1 - u) * (1 - 3 * u) \<le> (1 - u) * t" using t2 u0 by (intro mult_left_mono) auto
  moreover have "(1 + u) * t \<le> (1 + u) * (1 + 3 * u)" using t1 u0 by (intro mult_left_mono) auto
  moreover have "1 - 1 / 2 ^ 50 \<le> (1 - u) * (1 - 3 * u)" "(1 + u) * (1 + 3 * u) \<le> 1 + 1 / 2 ^ 50"
    unfolding u by simp_all
  ultimately have "1 - 1 / 2 ^ 50 \<le> sqrt (x * x + y * y)" "sqrt (x * x + y * y) \<le> 1 + 1 / 2 ^ 50"
    using g1 g2 by linarith+
  then show "\<bar>sqrt (x * x + y * y) - 1\<bar> \<le> 1 / 2 ^ 50" by linarith
qed

section \<open>Facing direction\<close>

lemma updateDirection_zero: "updateDirection a 0 0 = Inr a"
  by (simp add: updateDirection_def)

lemma apply_attack_op_direction:
  assumes "never_aimed x"
  shows "\<exists>a'. apply_attack_op a x = Inr a' \<and> currentDirection a' = currentDirection a"
  using assms
  by (cases x)
     (simp_all add: updateDirection_zero attack_update_def execute_def Let_def attackExpired_def
        setDamage_def setInterval_def setSwingArc_def setSwingSpeed_def setScale_def
        setOffsetDistance_def)

lemma run_attack_ops_direction:
  assumes "list_all never_aimed ops"
  shows "\<exists>a'. run_attack_ops a ops = Inr a' \<and> currentDirection a' = currentDirection a"
  using assms
proof (induction ops arbitrary: a)
  case Nil
  then show ?case by simp
next
  case (Cons x xs)
  from Cons.prems have nx: "never_aimed x" and nxs: "list_all never_aimed xs" by simp_all
  obtain a1 where s1: "apply_attack_op a x = Inr a1" "currentDirection a1 = currentDirection a"
    using apply_attack_op_direction [OF nx, of a] by blast
  obtain a2 where s2: "run_attack_ops a1 xs = Inr a2" "currentDirection a2 = currentDirection a1"
    using Cons.IH [OF nxs, of a1] by blast
  show ?case using s1 s2 by simp
qed

lemma fire_position:
  assumes "currentDirection a = \<lparr>dir_x = 1, dir_y = 0\<rparr>"
    and "t - attack_lastAttackTime a \<ge> interval (axeConfig a)"
  shows "activeAttacks (attack_update a t) =
           activeAttacks a @
             [add_sprite (sprite_x (player a) + offsetDistance (axeConfig a)) (sprite_y (player a))]"
  using assms by (simp add: attack_update_def execute_def Let_def)

text \<open>
  The normalisation at the game's diagonal velocity (200, 200): the squares 40000 and
  their sum 80000 are doubles; the square root of 80000 rounds to
  \<open>4975821619160760 / 2 ^ 44\<close> and 200 divided by it to \<open>6369051672525772 / 2 ^ 53\<close>, which
  is less than the square root of \<open>1 / 2\<close>.
\<close>

lemma binary64_40000: "binary64 40000 = Finite 40000"
  by (rule binary64_exact [where p = 37]) simp_all

lemma binary64_80000: "binary64 80000 = Finite 80000"
  by (rule binary64_exact [where p = 36]) simp_all

lemma binary64_sqrt_80000: "binary64 (sqrt 80000) = Finite (4975821619160760 / 2 ^ 44)"
proof -
  have lo: "4975821619160759 / 2 ^ 44 < sqrt 80000"
    by (rule real_less_rsqrt) (simp add: power2_eq_square)
  have hi: "sqrt 80000 < 4975821619160761 / 2 ^ 44"
    by (rule real_less_lsqrt) (simp_all add: power2_eq_square)
  have lo2: "(2 * 4975821619160760 - 1) / 2 ^ 45 < sqrt 80000"
    by (rule real_less_rsqrt) (simp add: power2_eq_square)
  have hi2: "sqrt 80000 < (2 * 4975821619160760 + 1) / 2 ^ 45"
    by (rule real_less_lsqrt) (simp_all add: power2_eq_square)
  have r: "round_half_even (sqrt 80000 * 2 ^ 44) = 4975821619160760"
    using lo2 hi2 by (intro round_half_even_eq) (simp_all add: field_simps)
  have "binary64 (sqrt 80000) = Finite (of_int (round_half_even (sqrt 80000 * 2 ^ 44)) / 2 ^ 44)"
    using lo hi by (intro binary64_frac) (simp_all add: field_simps)
  then show ?thesis by (simp only: r) simp
qed

lemma binary64_quotient_200:
  "binary64 (200 / (4975821619160760 / 2 ^ 44)) = Finite (6369051672525772 / 2 ^ 53)"
proof -
  let ?x = "200 / (4975821619160760 / 2 ^ 44) :: real"
  have r: "round_half_even (?x * 2 ^ 53) = 6369051672525772"
    by (intro round_half_even_eq) (simp_all add: field_simps)
  have "binary64 ?x = Finite (of_int (round_half_even (?x * 2 ^ 53)) / 2 ^ 53)"
    by (intro binary64_frac) (simp_all add: field_simps)
  then show ?thesis by (simp only: r) simp
qed

lemma diagonal_direction:
  "updateDirection a 200 200 =
     Inr (a\<lparr>currentDirection :=
              \<lparr>dir_x = 6369051672525772 / 2 ^ 53, dir_y = 6369051672525772 / 2 ^ 53\<rparr>\<rparr>)"
proof -
  have len: "js_sqrt (js_add (js_mul (Finite 200) (Finite 200)) (js_mul (Finite 200) (Finite 200))) =
      Finite (4975821619160760 / 2 ^ 44)"
    by (simp add: binary64_40000 binary64_80000 binary64_sqrt_80000)
  have q: "js_divide (Finite 200) (Finite (4975821619160760 / 2 ^ 44)) =
      Finite (6369051672525772 / 2 ^ 53)"
    using binary64_quotient_200 by simp
  have "(200::real) \<noteq> 0 \<or> (200::real) \<noteq> 0" by simp
  then show ?thesis unfolding updateDirection_def Let_def len q by simp
qed

lemma diagonal_length:
  "sqrt (6369051672525772 / 2 ^ 53 * (6369051672525772 / 2 ^ 53) +
         6369051672525772 / 2 ^ 53 * (6369051672525772 / 2 ^ 53)) < 1"
  by (rule real_less_lsqrt) (simp_all add: power2_eq_square)

lemma underflow_direction: "updateDirection a (1 / 2 ^ 600) 0 = Inl DivisionByZero"
proof -
  have "binary64 (1 / 2 ^ 600 * (1 / 2 ^ 600)) = Finite 0"
    by (rule binary64_underflow) (simp add: power_add [symmetric] del: power_add)
  then have len: "js_sqrt (js_add (js_mul (Finite (1 / 2 ^ 600)) (Finite (1 / 2 ^ 600)))
      (js_mul (Finite 0) (Finite 0))) = Finite 0"
    by simp
  have q: "js_divide (Finite (1 / 2 ^ 600)) (Finite 0) = PlusInfinity"
    by (simp add: signed_infinity_def)
  have "(1 / 2 ^ 600 :: real) \<noteq> 0 \<or> (0::real) \<noteq> 0" by simp
  then show ?thesis unfolding updateDirection_def Let_def len q by simp
qed

lemma overflow_direction:
  "updateDirection a (2 ^ 700) 0 = Inr (a\<lparr>currentDirection := \<lparr>dir_x = 0, dir_y = 0\<rparr>\<rparr>)"
proof -
  have "binary64 (2 ^ 700 * 2 ^ 700) = PlusInfinity"
    by (rule binary64_overflow) simp
  then have len: "js_sqrt (js_add (js_mul (Finite (2 ^ 700)) (Finite (2 ^ 700)))
      (js_mul (Finite 0) (Finite 0))) = PlusInfinity"
    by simp
  have "(2 ^ 700 :: real) \<noteq> 0 \<or> (0::real) \<noteq> 0" by simp
  then show ?thesis unfolding updateDirection_def Let_def len by simp
qed

text \<open>
  C10 (as stated) fails: the quotients are rounded, and the guard is on the velocity
  while the division is by the length. At the game's diagonal velocity (200, 200) the
  direction is (c, c) with \<open>c = 6369051672525772 / 2 ^ 53\<close>, a vector of length less than
  1. At the velocity \<open>(2 ^ -600, 0)\<close> the square underflows, the length is 0 and the
  quotient is not a number of the direction. At \<open>(2 ^ 700, 0)\<close> the square overflows,
  the length is infinite and the direction is (0, 0).
\<close>

theorem normalised_length_not_one:
  "(\<exists>b'. updateDirection sample_attack 200 200 = Inr b' \<and>
         currentDirection b' =
           \<lparr>dir_x = 6369051672525772 / 2 ^ 53, dir_y = 6369051672525772 / 2 ^ 53\<rparr> \<and>
         sqrt (dir_x (currentDirection b') * dir_x (currentDirection b') +
               dir_y (currentDirection b') * dir_y (currentDirection b')) < 1) \<and>
   updateDirection sample_attack (1 / 2 ^ 600) 0 = Inl DivisionByZero \<and>
   (\<exists>b'. updateDirection sample_attack (2 ^ 700) 0 = Inr b' \<and>
         currentDirection b' = \<lparr>dir_x = 0, dir_y = 0\<rparr>)"
proof (intro conjI)
  show "\<exists>b'. updateDirection sample_attack 200 200 = Inr b' \<and>
         currentDirection b' =
           \<lparr>dir_x = 6369051672525772 / 2 ^ 53, dir_y = 6369051672525772 / 2 ^ 53\<rparr> \<and>
         sqrt (dir_x (currentDirection b') * dir_x (currentDirection b') +
               dir_y (currentDirection b') * dir_y (currentDirection b')) < 1"
    using diagonal_length by (simp add: diagonal_direction)
  show "updateDirection sample_attack (1 / 2 ^ 600) 0 = Inl DivisionByZero"
    by (rule underflow_direction)
  show "\<exists>b'. updateDirection sample_attack (2 ^ 700) 0 = Inr b' \<and>
         currentDirection b' = \<lparr>dir_x = 0, dir_y = 0\<rparr>"
    unfolding overflow_direction by simp
qed

text \<open>
  The normalisation of a velocity of moderate size. Each operation has a relative
  error of at most \<open>2 ^ -53\<close>, and no intermediate result leaves the normal range.
\<close>

lemma binary64_close:
  assumes "x = 0 \<or> (1 / 2 ^ 1022 \<le> \<bar>x\<bar> \<and> \<bar>x\<bar> < 2 ^ 1023)"
  shows "\<exists>r. binary64 x = Finite r \<and> \<bar>r - x\<bar> \<le> \<bar>x\<bar> * (1 / 2 ^ 53)"
proof (cases "x = 0")
  case True
  then show ?thesis by simp
next
  case False
  then have "1 / 2 ^ 1022 \<le> \<bar>x\<bar>" "\<bar>x\<bar> < 2 ^ 1023" using assms by simp_all
  then show ?thesis using binary64_relative [of x] by simp
qed

lemma within_factor_two:
  fixes r x :: real
  assumes "\<bar>r - x\<bar> \<le> \<bar>x\<bar> * (1 / 2 ^ 53)" and "0 \<le> x"
  shows "x / 2 \<le> r" and "r \<le> 2 * x"
proof -
  have "x * (1 / 2 ^ 53) \<le> x * (1 / 2)" using assms(2) by (intro mult_left_mono) simp_all
  then have "\<bar>r - x\<bar> \<le> x / 2" using assms by simp
  then show "x / 2 \<le> r" and "r \<le> 2 * x" using assms(2) by linarith+
qed

lemma half_of_bound:
  fixes k k' x r :: real
  assumes "k \<le> x" and "x / 2 \<le> r" and "k' = k / 2"
  shows "k' \<le> r"
  using assms by linarith

lemma double_of_bound:
  fixes k k' x r :: real
  assumes "x \<le> k" and "r \<le> 2 * x" and "k' = 2 * k"
  shows "r \<le> k'"
  using assms by linarith

lemma in_normal_range:
  fixes x lo hi :: real
  assumes "lo \<le> x" and "x \<le> hi" and "1 / 2 ^ 1022 \<le> lo" and "hi < 2 ^ 1023"
  shows "x = 0 \<or> (1 / 2 ^ 1022 \<le> \<bar>x\<bar> \<and> \<bar>x\<bar> < 2 ^ 1023)"
proof -
  have "(0::real) < 1 / 2 ^ 1022" by simp
  then have "0 < x" using assms(1,3) by linarith
  then have a: "\<bar>x\<bar> = x" by simp
  have "1 / 2 ^ 1022 \<le> x" "x < 2 ^ 1023" using assms by linarith+
  then show ?thesis unfolding a by blast
qed

lemma moderate_square:
  assumes "moderate v"
  shows "v * v = 0 \<or> (1 / 2 ^ 1000 \<le> v * v \<and> v * v \<le> 2 ^ 1000)"
proof (cases "v = 0")
  case True
  then show ?thesis by simp
next
  case False
  then have b: "1 / 2 ^ 500 \<le> \<bar>v\<bar>" "\<bar>v\<bar> \<le> 2 ^ 500" using assms by (simp_all add: moderate_def)
  have "(1 / 2 ^ 500) * (1 / 2 ^ 500) \<le> \<bar>v\<bar> * \<bar>v\<bar>" using b(1) by (intro mult_mono) simp_all
  moreover have "\<bar>v\<bar> * \<bar>v\<bar> \<le> 2 ^ 500 * 2 ^ 500" using b(2) by (intro mult_mono) simp_all
  moreover have "\<bar>v\<bar> * \<bar>v\<bar> = v * v" by simp
  moreover have "(1 / 2 ^ 500) * (1 / 2 ^ 500) = (1 / 2 ^ 1000 :: real)"
    "(2 ^ 500 * 2 ^ 500 :: real) = 2 ^ 1000" by simp_all
  ultimately show ?thesis by simp
qed

lemma moderate_square_range:
  assumes "moderate v"
  shows "v * v = 0 \<or> (1 / 2 ^ 1022 \<le> \<bar>v * v\<bar> \<and> \<bar>v * v\<bar> < 2 ^ 1023)"
proof (cases "v * v = 0")
  case True
  then show ?thesis by blast
next
  case False
  then have b: "1 / 2 ^ 1000 \<le> v * v" "v * v \<le> 2 ^ 1000"
    using moderate_square [OF assms] by blast+
  have a: "\<bar>v * v\<bar> = v * v" by simp
  have "(1 / 2 ^ 1022 :: real) \<le> 1 / 2 ^ 1000" "(2 ^ 1000 :: real) < 2 ^ 1023" by simp_all
  then have "1 / 2 ^ 1022 \<le> \<bar>v * v\<bar> \<and> \<bar>v * v\<bar> < 2 ^ 1023"
    using b unfolding a by linarith
  then show ?thesis by blast
qed

lemma moderate_quotient:
  fixes v l :: real
  assumes "moderate v" and "1 / 2 ^ 502 \<le> l" and "l \<le> 2 ^ 503"
  shows "v / l = 0 \<or> (1 / 2 ^ 1022 \<le> \<bar>v / l\<bar> \<and> \<bar>v / l\<bar> < 2 ^ 1023)"
proof (cases "v = 0")
  case True
  then show ?thesis by simp
next
  case False
  then have b: "1 / 2 ^ 500 \<le> \<bar>v\<bar>" "\<bar>v\<bar> \<le> 2 ^ 500" using assms(1) by (simp_all add: moderate_def)
  have "(0::real) < 1 / 2 ^ 502" by simp
  then have lpos: "0 < l" using assms(2) by linarith
  have q: "\<bar>v / l\<bar> = \<bar>v\<bar> / l" using lpos by simp
  have "1 / 2 ^ 1003 * l \<le> 1 / 2 ^ 1003 * 2 ^ 503" using assms(3) by (intro mult_left_mono) simp_all
  also have "\<dots> = 1 / 2 ^ 500" by simp
  finally have "1 / 2 ^ 1003 * l \<le> \<bar>v\<bar>" using b(1) by linarith
  then have lo: "1 / 2 ^ 1003 \<le> \<bar>v\<bar> / l" using lpos by (simp add: pos_le_divide_eq)
  have "2 ^ 500 = 2 ^ 1002 * (1 / 2 ^ 502 :: real)" by simp
  also have "\<dots> \<le> 2 ^ 1002 * l" using assms(2) by (intro mult_left_mono) simp_all
  finally have "\<bar>v\<bar> \<le> 2 ^ 1002 * l" using b(2) by linarith
  then have hi: "\<bar>v\<bar> / l \<le> 2 ^ 1002" using lpos by (simp add: pos_divide_le_eq)
  have "(1 / 2 ^ 1022 :: real) \<le> 1 / 2 ^ 1003" "(2 ^ 1002 :: real) < 2 ^ 1023" by simp_all
  then show ?thesis using lo hi unfolding q by linarith
qed

lemma updateDirection_moderate:
  assumes mx: "moderate vx" and my: "moderate vy" and nz: "vx \<noteq> 0 \<or> vy \<noteq> 0"
  shows "\<exists>b'. updateDirection b vx vy = Inr b' \<and>
           \<bar>dir_x (currentDirection b') - vx / sqrt (vx * vx + vy * vy)\<bar> \<le> 1 / 2 ^ 50 \<and>
           \<bar>dir_y (currentDirection b') - vy / sqrt (vx * vx + vy * vy)\<bar> \<le> 1 / 2 ^ 50 \<and>
           \<bar>sqrt (dir_x (currentDirection b') * dir_x (currentDirection b') +
                  dir_y (currentDirection b') * dir_y (currentDirection b')) - 1\<bar> \<le> 1 / 2 ^ 50"
proof -
  define P where "P = vx * vx + vy * vy"
  note sx = moderate_square [OF mx] and sy = moderate_square [OF my]
  note rx = moderate_square_range [OF mx] and ry = moderate_square_range [OF my]
  obtain a where a: "binary64 (vx * vx) = Finite a" "\<bar>a - vx * vx\<bar> \<le> \<bar>vx * vx\<bar> * (1 / 2 ^ 53)"
    using binary64_close [OF rx] by blast
  obtain c where c: "binary64 (vy * vy) = Finite c" "\<bar>c - vy * vy\<bar> \<le> \<bar>vy * vy\<bar> * (1 / 2 ^ 53)"
    using binary64_close [OF ry] by blast
  have ax: "\<bar>vx * vx\<bar> = vx * vx" and ay: "\<bar>vy * vy\<bar> = vy * vy" by simp_all
  have a': "\<bar>a - vx * vx\<bar> \<le> (vx * vx) * (1 / 2 ^ 53)" using a(2) unfolding ax .
  have c': "\<bar>c - vy * vy\<bar> \<le> (vy * vy) * (1 / 2 ^ 53)" using c(2) unfolding ay .
  have sq: "0 \<le> vx * vx" "0 \<le> vy * vy" by simp_all
  have Plo: "1 / 2 ^ 1000 \<le> P"
  proof -
    have "vx * vx \<noteq> 0 \<or> vy * vy \<noteq> 0" using nz by simp
    then show ?thesis using sx sy sq unfolding P_def by (elim disjE) linarith+
  qed
  have Phi: "P \<le> 2 ^ 1001"
  proof -
    have "(0::real) \<le> 2 ^ 1000" "(2 ^ 1001 :: real) = 2 ^ 1000 + 2 ^ 1000" by simp_all
    then show ?thesis using sx sy unfolding P_def by (elim disjE) linarith+
  qed
  have "(0::real) < 1 / 2 ^ 1000" by simp
  then have Ppos: "0 < P" using Plo by linarith
  note fa = within_factor_two [OF a(2) sq(1)] and fc = within_factor_two [OF c(2) sq(2)]
  have ab: "P / 2 \<le> a + c" "a + c \<le> 2 * P"
  proof -
    have "P / 2 = vx * vx / 2 + vy * vy / 2" unfolding P_def by (simp add: add_divide_distrib)
    then show "P / 2 \<le> a + c" using fa(1) fc(1) by linarith
    have "2 * P = 2 * (vx * vx) + 2 * (vy * vy)" unfolding P_def by (simp add: distrib_left)
    then show "a + c \<le> 2 * P" using fa(2) fc(2) by linarith
  qed
  have ablo: "1 / 2 ^ 1001 \<le> a + c"
    by (rule half_of_bound [OF Plo ab(1)]) simp
  have abhi: "a + c \<le> 2 ^ 1002"
    by (rule double_of_bound [OF Phi ab(2)]) simp
  have "(0::real) < 1 / 2 ^ 1001" by simp
  then have abpos: "0 \<le> a + c" using ablo by linarith
  have rs: "a + c = 0 \<or> (1 / 2 ^ 1022 \<le> \<bar>a + c\<bar> \<and> \<bar>a + c\<bar> < 2 ^ 1023)"
    by (rule in_normal_range [OF ablo abhi]) simp_all
  obtain s where s: "binary64 (a + c) = Finite s" "\<bar>s - (a + c)\<bar> \<le> \<bar>a + c\<bar> * (1 / 2 ^ 53)"
    using binary64_close [OF rs] by blast
  note fs = within_factor_two [OF s(2) abpos]
  have slo: "1 / 2 ^ 1002 \<le> s"
    by (rule half_of_bound [OF ablo fs(1)]) simp
  have shi: "s \<le> 2 ^ 1003"
    by (rule double_of_bound [OF abhi fs(2)]) simp
  have "(0::real) < 1 / 2 ^ 1002" by simp
  then have spos: "0 \<le> s" using slo by linarith
  have rtlo: "1 / 2 ^ 501 \<le> sqrt s"
  proof (rule real_le_rsqrt)
    have "(1 / 2 ^ 501 :: real)\<^sup>2 = 1 / 2 ^ 1002" by (simp add: power2_eq_square)
    then show "(1 / 2 ^ 501)\<^sup>2 \<le> s" using slo by (simp only:)
  qed
  have rthi: "sqrt s \<le> 2 ^ 502"
  proof (rule real_le_lsqrt)
    show "(0::real) \<le> 2 ^ 502" by simp
    have "(2 ^ 1003 :: real) \<le> (2 ^ 502)\<^sup>2" by (simp add: power2_eq_square)
    then show "s \<le> (2 ^ 502)\<^sup>2" using shi by (rule order_trans [rotated])
  qed
  have "(0::real) < 1 / 2 ^ 501" by simp
  then have rtpos: "0 \<le> sqrt s" using rtlo by linarith
  have rl: "sqrt s = 0 \<or> (1 / 2 ^ 1022 \<le> \<bar>sqrt s\<bar> \<and> \<bar>sqrt s\<bar> < 2 ^ 1023)"
    by (rule in_normal_range [OF rtlo rthi]) simp_all
  obtain l where l: "binary64 (sqrt s) = Finite l" "\<bar>l - sqrt s\<bar> \<le> \<bar>sqrt s\<bar> * (1 / 2 ^ 53)"
    using binary64_close [OF rl] by blast
  note fl = within_factor_two [OF l(2) rtpos]
  have llo: "1 / 2 ^ 502 \<le> l"
    by (rule half_of_bound [OF rtlo fl(1)]) simp
  have lhi: "l \<le> 2 ^ 503"
    by (rule double_of_bound [OF rthi fl(2)]) simp
  have "(0::real) < 1 / 2 ^ 502" by simp
  then have lnz: "l \<noteq> 0" using llo by linarith
  obtain x where x: "binary64 (vx / l) = Finite x" "\<bar>x - vx / l\<bar> \<le> \<bar>vx / l\<bar> * (1 / 2 ^ 53)"
    using binary64_close [OF moderate_quotient [OF mx llo lhi]] by blast
  obtain y where y: "binary64 (vy / l) = Finite y" "\<bar>y - vy / l\<bar> \<le> \<bar>vy / l\<bar> * (1 / 2 ^ 53)"
    using binary64_close [OF moderate_quotient [OF my llo lhi]] by blast
  have len: "js_sqrt (js_add (js_mul (Finite vx) (Finite vx)) (js_mul (Finite vy) (Finite vy))) =
      Finite l"
    using a(1) c(1) s(1) l(1) spos by simp
  have run: "updateDirection b vx vy = Inr (b\<lparr>currentDirection := \<lparr>dir_x = x, dir_y = y\<rparr>\<rparr>)"
    using nz lnz x(1) y(1) unfolding updateDirection_def Let_def len by simp
  note e = normalise_error [OF refl P_def Ppos a' c' s(2) l(2) x(2) y(2)]
  show ?thesis using run e unfolding P_def by simp
qed

text \<open>
  C10 (amended). A new attack faces \<open>(1, 0)\<close>. Through every sequence of operations in
  which \<open>updateDirection\<close> is only ever called with the zero velocity, the sequence runs
  without a fault, the direction stays \<open>(1, 0)\<close>, and every fire appends a sprite at the
  player's position plus \<open>offsetDistance\<close> in x. Whenever \<open>updateDirection\<close> is called
  with a velocity that is not zero and whose components are of moderate size (zero, or
  of magnitude between \<open>2 ^ -500\<close> and \<open>2 ^ 500\<close>), the call stores a direction, each
  component of it is within \<open>2 ^ -50\<close> of the velocity's component divided by the
  velocity's Euclidean length, and its length is within \<open>2 ^ -50\<close> of 1.
\<close>

theorem facing_direction_rounded:
  "(list_all never_aimed ops \<longrightarrow>
      (\<exists>a. run_attack_ops (AxeHackAttack_new scn p c) ops = Inr a \<and>
           currentDirection a = \<lparr>dir_x = 1, dir_y = 0\<rparr> \<and>
           (\<forall>t. t - attack_lastAttackTime a \<ge> interval (axeConfig a) \<longrightarrow>
                activeAttacks (attack_update a t) =
                  activeAttacks a @
                    [add_sprite (sprite_x (player a) + offsetDistance (axeConfig a))
                       (sprite_y (player a))]))) \<and>
   (moderate vx \<and> moderate vy \<and> (vx \<noteq> 0 \<or> vy \<noteq> 0) \<longrightarrow>
      (\<exists>b'. updateDirection b vx vy = Inr b' \<and>
            \<bar>dir_x (currentDirection b') - vx / sqrt (vx * vx + vy * vy)\<bar> \<le> 1 / 2 ^ 50 \<and>
            \<bar>dir_y (currentDirection b') - vy / sqrt (vx * vx + vy * vy)\<bar> \<le> 1 / 2 ^ 50 \<and>
            \<bar>sqrt (dir_x (currentDirection b') * dir_x (currentDirection b') +
                   dir_y (currentDirection b') * dir_y (currentDirection b')) - 1\<bar> \<le> 1 / 2 ^ 50))"
proof (intro conjI impI)
  assume h: "list_all never_aimed ops"
  obtain a where a: "run_attack_ops (AxeHackAttack_new scn p c) ops = Inr a"
      "currentDirection a = currentDirection (AxeHackAttack_new scn p c)"
    using run_attack_ops_direction [OF h] by blast
  have d: "currentDirection a = \<lparr>dir_x = 1, dir_y = 0\<rparr>"
    using a(2) by (simp add: AxeHackAttack_new_def)
  show "\<exists>a. run_attack_ops (AxeHackAttack_new scn p c) ops = Inr a \<and>
           currentDirection a = \<lparr>dir_x = 1, dir_y = 0\<rparr> \<and>
           (\<forall>t. t - attack_lastAttackTime a \<ge> interval (axeConfig a) \<longrightarrow>
                activeAttacks (attack_update a t) =
                  activeAttacks a @
                    [add_sprite (sprite_x (player a) + offsetDistance (axeConfig a))
                       (sprite_y (player a))])"
    using a(1) d fire_position [OF d] by blast
next
  assume m: "moderate vx \<and> moderate vy \<and> (vx \<noteq> 0 \<or> vy \<noteq> 0)"
  then have "moderate vx" "moderate vy" "vx \<noteq> 0 \<or> vy \<noteq> 0" by simp_all
  then show "\<exists>b'. updateDirection b vx vy = Inr b' \<and>
            \<bar>dir_x (currentDirection b') - vx / sqrt (vx * vx + vy * vy)\<bar> \<le> 1 / 2 ^ 50 \<and>
            \<bar>dir_y (currentDirection b') - vy / sqrt (vx * vx + vy * vy)\<bar> \<le> 1 / 2 ^ 50 \<and>
            \<bar>sqrt (dir_x (currentDirection b') * dir_x (currentDirection b') +
                   dir_y (currentDirection b') * dir_y (currentDirection b')) - 1\<bar> \<le> 1 / 2 ^ 50"
    by (rule updateDirection_moderate)
qed

lemma sample_attack_run:
  "run_attack_ops sample_attack
     [AttackUpdate 2000, UpdateDirection 0 0, PlayerMoved 100 50, AttackUpdate 4000] =
   Inr (sample_attack\<lparr>player := add_sprite 100 50, attack_lastAttackTime := 4000,
         activeAttacks := [add_sprite 105 100, add_sprite 140 50]\<rparr>)"
  by (simp add: sample_attack_def AxeHackAttack_new_def attack_update_def execute_def Let_def
      updateDirection_zero merge_axe_config_def no_axe_overrides_def or_default_def
      DEFAULT_AXE_HACK_CONFIG_def add_sprite_def)

theorem facing_direction_rounded_witness:
  "list_all never_aimed [AttackUpdate 2000, UpdateDirection 0 0, PlayerMoved 100 50, AttackUpdate 4000] \<and>
   (\<exists>a. run_attack_ops sample_attack
           [AttackUpdate 2000, UpdateDirection 0 0, PlayerMoved 100 50, AttackUpdate 4000] = Inr a \<and>
         currentDirection a = \<lparr>dir_x = 1, dir_y = 0\<rparr> \<and>
         activeAttacks a = [add_sprite 105 100, add_sprite 140 50] \<and>
         activeAttacks (attack_update a 6000) =
           [add_sprite 105 100, add_sprite 140 50, add_sprite 140 50]) \<and>
   moderate 200 \<and>
   (\<exists>b'. updateDirection sample_attack 200 200 = Inr b' \<and>
         \<bar>dir_x (currentDirection b') - 200 / sqrt 80000\<bar> \<le> 1 / 2 ^ 50 \<and>
         \<bar>dir_y (currentDirection b') - 200 / sqrt 80000\<bar> \<le> 1 / 2 ^ 50 \<and>
         \<bar>sqrt (dir_x (currentDirection b') * dir_x (currentDirection b') +
                dir_y (currentDirection b') * dir_y (currentDirection b')) - 1\<bar> \<le> 1 / 2 ^ 50)"
proof -
  let ?ops = "[AttackUpdate 2000, UpdateDirection 0 0, PlayerMoved 100 50, AttackUpdate 4000]"
  have h: "list_all never_aimed ?ops" by simp
  have m: "moderate 200" by (simp add: moderate_def)
  have nz: "moderate 200 \<and> moderate 200 \<and> ((200::real) \<noteq> 0 \<or> (200::real) \<noteq> 0)"
    using m by simp
  note th = facing_direction_rounded [of ?ops sample_scene "add_sprite 65 100" no_axe_overrides
      200 200 sample_attack, folded sample_attack_def]
  obtain a where a: "run_attack_ops sample_attack ?ops = Inr a"
      "currentDirection a = \<lparr>dir_x = 1, dir_y = 0\<rparr>"
      "\<forall>t. t - attack_lastAttackTime a \<ge> interval (axeConfig a) \<longrightarrow>
                activeAttacks (attack_update a t) =
                  activeAttacks a @
                    [add_sprite (sprite_x (player a) + offsetDistance (axeConfig a))
                       (sprite_y (player a))]"
    using th h by blast
  have ae: "a = sample_attack\<lparr>player := add_sprite 100 50, attack_lastAttackTime := 4000,
         activeAttacks := [add_sprite 105 100, add_sprite 140 50]\<rparr>"
    using a(1) sample_attack_run by simp
  have f: "6000 - attack_lastAttackTime a \<ge> interval (axeConfig a)"
    by (simp add: ae sample_attack_def AxeHackAttack_new_def merge_axe_config_def
        no_axe_overrides_def or_default_def DEFAULT_AXE_HACK_CONFIG_def)
  have "activeAttacks (attack_update a 6000) =
          activeAttacks a @
            [add_sprite (sprite_x (player a) + offsetDistance (axeConfig a)) (sprite_y (player a))]"
    using a(3) f by blast
  then have g: "activeAttacks (attack_update a 6000) =
      [add_sprite 105 100, add_sprite 140 50, add_sprite 140 50]"
    by (simp add: ae sample_attack_def AxeHackAttack_new_def merge_axe_config_def
        no_axe_overrides_def or_default_def DEFAULT_AXE_HACK_CONFIG_def add_sprite_def)
  obtain b' where b: "updateDirection sample_attack 200 200 = Inr b'"
      "\<bar>dir_x (currentDirection b') - 200 / sqrt (200 * 200 + 200 * 200)\<bar> \<le> 1 / 2 ^ 50"
      "\<bar>dir_y (currentDirection b') - 200 / sqrt (200 * 200 + 200 * 200)\<bar> \<le> 1 / 2 ^ 50"
      "\<bar>sqrt (dir_x (currentDirection b') * dir_x (currentDirection b') +
             dir_y (currentDirection b') * dir_y (currentDirection b')) - 1\<bar> \<le> 1 / 2 ^ 50"
    using th nz by blast
  have e: "(200 * 200 + 200 * 200 :: real) = 80000" by simp
  have "\<exists>b'. updateDirection sample_attack 200 200 = Inr b' \<and>
         \<bar>dir_x (currentDirection b') - 200 / sqrt 80000\<bar> \<le> 1 / 2 ^ 50 \<and>
         \<bar>dir_y (currentDirection b') - 200 / sqrt 80000\<bar> \<le> 1 / 2 ^ 50 \<and>
         \<bar>sqrt (dir_x (currentDirection b') * dir_x (currentDirection b') +
                dir_y (currentDirection b') * dir_y (currentDirection b')) - 1\<bar> \<le> 1 / 2 ^ 50"
    using b unfolding e by blast
  moreover have "\<exists>a. run_attack_ops sample_attack ?ops = Inr a \<and>
         currentDirection a = \<lparr>dir_x = 1, dir_y = 0\<rparr> \<and>
         activeAttacks a = [add_sprite 105 100, add_sprite 140 50] \<and>
         activeAttacks (attack_update a 6000) =
           [add_sprite 105 100, add_sprite 140 50, add_sprite 140 50]"
    using a(1,2) ae g by auto
  ultimately show ?thesis using h m by blast
qed

section \<open>Spawn placement\<close>

lemma Between_eq:
  "Between lo hi sc =
     (finite_value
        (js_floor
           (js_add (js_mul (Finite (random_source sc (random_pos sc)))
                      (js_add (js_sub (Finite hi) (Finite lo)) (Finite 1)))
              (Finite lo))),
      sc\<lparr>random_pos := random_pos sc + 1\<rparr>)"
  by (simp add: Between_def Math_random_def)

lemma corner_manager_fields:
  "camera (scene corner_manager) = \<lparr>scrollX = 0, scrollY = 0, cam_width = 800, cam_height = 600\<rparr>"
  "random_source (scene corner_manager) = (\<lambda>n. if n = 0 then 0 else 1 / 2)"
  "random_pos (scene corner_manager) = 0"
  "worldWidth corner_manager = 3200" "worldHeight corner_manager = 2400"
  "spawnPadding corner_manager = 100"
  by (simp_all add: corner_manager_def SpawnManager_new_def sample_scene_def)

lemma right_edge_manager_fields:
  "camera (scene right_edge_manager) =
     \<lparr>scrollX = 2400, scrollY = 900, cam_width = 800, cam_height = 600\<rparr>"
  "random_source (scene right_edge_manager) = (\<lambda>n. if n = 0 then 0 else draw_near_one)"
  "random_pos (scene right_edge_manager) = 0"
  "worldWidth right_edge_manager = 3200" "worldHeight right_edge_manager = 2400"
  "spawnPadding right_edge_manager = 100"
  by (simp_all add: right_edge_manager_def SpawnManager_new_def sample_scene_def)

text \<open>
  The draws of the two placements. The side: the draw 0 gives \<open>Between(0, 3) = 0\<close>, the
  top. At the corner, \<open>Between(0, 900)\<close> with the draw \<open>1 / 2\<close> is the floor of 450.5. At
  the right edge, \<open>Between(2300, 3200)\<close> with the draw \<open>1 - 2 ^ -52\<close>: the product with 901
  is \<open>901 - 901 / 2 ^ 52\<close>, which rounds to \<open>901 - 2 ^ -42\<close>; adding 2300 gives
  \<open>3201 - 2 ^ -42\<close>, halfway between the doubles \<open>3201 - 2 ^ -41\<close> and 3201, and the tie goes
  to 3201, whose significand is even.
\<close>

lemma round_half_even_tie:
  "round_half_even (of_int n + 1 / 2) = (if even n then n else n + 1)"
proof -
  have "\<lfloor>of_int n + 1 / 2 :: real\<rfloor> = n" by (intro floor_unique) auto
  then show ?thesis by (simp add: round_half_even_def)
qed

lemma binary64_3: "binary64 3 = Finite 3"
  by (rule binary64_exact [where p = 51]) simp_all

lemma binary64_4: "binary64 4 = Finite 4"
  by (rule binary64_exact [where p = 50]) simp_all

lemma binary64_900: "binary64 900 = Finite 900"
  by (rule binary64_exact [where p = 43]) simp_all

lemma binary64_901: "binary64 901 = Finite 901"
  by (rule binary64_exact [where p = 43]) simp_all

lemma binary64_450_5: "binary64 (901 / 2) = Finite (901 / 2)"
  by (rule binary64_exact [where p = 44]) simp_all

lemma binary64_product_901:
  "binary64 (draw_near_one * 901) = Finite (901 - 1 / 2 ^ 42)"
proof -
  let ?x = "(1 - 1 / 2 ^ 52) * 901 :: real"
  have r: "round_half_even (?x * 2 ^ 43) = 901 * 2 ^ 43 - 2"
    by (intro round_half_even_eq) (simp_all add: field_simps)
  have "binary64 ?x = Finite (of_int (round_half_even (?x * 2 ^ 43)) / 2 ^ 43)"
    by (intro binary64_frac) (simp_all add: field_simps)
  then show ?thesis unfolding draw_near_one_def by (simp only: r) (simp add: field_simps)
qed

lemma binary64_sum_3201: "binary64 (901 - 1 / 2 ^ 42 + 2300) = Finite 3201"
proof -
  let ?x = "901 - 1 / 2 ^ 42 + 2300 :: real"
  have "?x * 2 ^ 41 = of_int (3201 * 2 ^ 41 - 1) + 1 / 2" by (simp add: field_simps)
  then have "round_half_even (?x * 2 ^ 41) = 3201 * 2 ^ 41"
    by (simp only: round_half_even_tie) simp
  moreover have "binary64 ?x = Finite (of_int (round_half_even (?x * 2 ^ 41)) / 2 ^ 41)"
    by (intro binary64_frac) (simp_all add: field_simps)
  ultimately show ?thesis by simp
qed

lemma side_draw:
  "js_floor (js_add (js_mul (Finite 0) (js_add (js_sub (Finite 3) (Finite 0)) (Finite 1)))
     (Finite 0)) = Finite 0"
  by (simp add: js_sub_def binary64_3 binary64_4)

lemma corner_draw:
  "js_floor (js_add (js_mul (Finite (1 / 2)) (js_add (js_sub (Finite 900) (Finite 0)) (Finite 1)))
     (Finite 0)) = Finite 450"
proof -
  have "js_add (js_sub (Finite 900) (Finite 0)) (Finite 1) = Finite 901"
    by (simp add: js_sub_def binary64_900 binary64_901)
  moreover have "js_mul (Finite (1 / 2)) (Finite 901) = Finite (901 / 2)"
    using binary64_450_5 by simp
  moreover have "js_add (Finite (901 / 2)) (Finite 0) = Finite (901 / 2)"
    using binary64_450_5 by simp
  moreover have "\<lfloor>901 / 2 :: real\<rfloor> = 450" by (intro floor_unique) simp_all
  ultimately show ?thesis by simp
qed

lemma right_edge_draw:
  "js_floor (js_add (js_mul (Finite draw_near_one)
                       (js_add (js_sub (Finite 3200) (Finite 2300)) (Finite 1)))
     (Finite 2300)) = Finite 3201"
proof -
  have "js_add (js_sub (Finite 3200) (Finite 2300)) (Finite 1) = Finite 901"
    by (simp add: js_sub_def binary64_900 binary64_901)
  moreover have "js_mul (Finite draw_near_one) (Finite 901) = Finite (901 - 1 / 2 ^ 42)"
    using binary64_product_901 by simp
  moreover have "js_add (Finite (901 - 1 / 2 ^ 42)) (Finite 2300) = Finite 3201"
    using binary64_sum_3201 by simp
  ultimately show ?thesis by simp
qed

lemma corner_spawn: "fst (getRandomSpawnPosition corner_manager) = (450, 0)"
proof -
  have s: "Between 0 3 (scene corner_manager) =
      (0, (scene corner_manager)\<lparr>random_pos := Suc 0\<rparr>)"
    unfolding Between_eq corner_manager_fields using side_draw by simp
  have x: "Between 0 900 ((scene corner_manager)\<lparr>random_pos := Suc 0\<rparr>) =
      (450, (scene corner_manager)\<lparr>random_pos := 2\<rparr>)"
    unfolding Between_eq using corner_draw by (simp add: corner_manager_fields)
  show ?thesis
    unfolding getRandomSpawnPosition_def Let_def corner_manager_fields
    by (simp add: s x)
qed

lemma right_edge_spawn: "fst (getRandomSpawnPosition right_edge_manager) = (3201, 800)"
proof -
  have s: "Between 0 3 (scene right_edge_manager) =
      (0, (scene right_edge_manager)\<lparr>random_pos := Suc 0\<rparr>)"
    unfolding Between_eq right_edge_manager_fields using side_draw by simp
  have x: "Between 2300 3200 ((scene right_edge_manager)\<lparr>random_pos := Suc 0\<rparr>) =
      (3201, (scene right_edge_manager)\<lparr>random_pos := 2\<rparr>)"
    unfolding Between_eq using right_edge_draw by (simp add: right_edge_manager_fields)
  show ?thesis
    unfolding getRandomSpawnPosition_def Let_def right_edge_manager_fields
    by (simp add: s x)
qed

text \<open>
  C4. The placement breaks its own comment, "Get a random spawn position outside the
  camera view but within world bounds", on both counts, for cameras that lie within
  the world. With the camera in the world's top left corner (scroll 0, 0) the padded
  rectangle does not cover the world, the top side is drawn, the padded top edge -100
  is clamped to 0, and the monster is placed at (450, 0), on the top edge of the
  camera rectangle and in view. With the camera against the world's right edge
  (scroll 2400, 900) and the draw \<open>1 - 2 ^ -52\<close> along the top side, the monster is
  placed at x = 3201 in a world of width 3200.
\<close>

theorem spawn_in_view_and_beyond_world:
  "camera_in_world corner_manager \<and>
   \<not> padded_camera_covers_world corner_manager \<and>
   fst (getRandomSpawnPosition corner_manager) = (450, 0) \<and>
   in_camera (camera (scene corner_manager)) (450, 0) \<and>
   camera_in_world right_edge_manager \<and>
   fst (getRandomSpawnPosition right_edge_manager) = (3201, 800) \<and>
   worldWidth right_edge_manager = 3200"
  by (simp add: corner_spawn right_edge_spawn camera_in_world_def padded_camera_covers_world_def
      in_camera_def corner_manager_fields right_edge_manager_fields)

section \<open>Scripted schedules\<close>

lemma getRandomSpawnPosition_scene:
  "snd (getRandomSpawnPosition sm) = (scene sm)\<lparr>random_pos := random_pos (scene sm) + 2\<rparr>"
  by (simp add: getRandomSpawnPosition_def Between_eq Let_def split_def)

lemma spawnMonster_eq:
  "snd (spawnMonster sm ty c) =
     sm\<lparr>scene := (scene sm)\<lparr>random_pos := random_pos (scene sm) + 2\<rparr>,
        monsters := monsters sm @
          [Goblin_new (snd (getRandomSpawnPosition sm)) (fst (fst (getRandomSpawnPosition sm)))
             (snd (fst (getRandomSpawnPosition sm))) (sm_target sm) (or_default c no_overrides)]\<rparr>"
  by (cases ty) (simp add: spawnMonster_def Let_def split_def getRandomSpawnPosition_scene)


lemma spawnMonster_frame:
  "time_now (scene (snd (spawnMonster sm ty c))) = time_now (scene sm)"
  "timers (scene (snd (spawnMonster sm ty c))) = timers (scene sm)"
  "next_timer_id (scene (snd (spawnMonster sm ty c))) = next_timer_id (scene sm)"
  "camera (scene (snd (spawnMonster sm ty c))) = camera (scene sm)"
  "random_source (scene (snd (spawnMonster sm ty c))) = random_source (scene sm)"
  "currentSchedule (snd (spawnMonster sm ty c)) = currentSchedule sm"
  "currentWaveIndex (snd (spawnMonster sm ty c)) = currentWaveIndex sm"
  "scheduleTimer (snd (spawnMonster sm ty c)) = scheduleTimer sm"
  "repeatingSpawns (snd (spawnMonster sm ty c)) = repeatingSpawns sm"
  "length (monsters (snd (spawnMonster sm ty c))) = Suc (length (monsters sm))"
  by (simp_all add: spawnMonster_eq)

lemma spawnTimes_frame:
  "time_now (scene (spawnTimes ty c i n sm)) = time_now (scene sm) \<and>
   timers (scene (spawnTimes ty c i n sm)) = timers (scene sm) \<and>
   next_timer_id (scene (spawnTimes ty c i n sm)) = next_timer_id (scene sm) \<and>
   camera (scene (spawnTimes ty c i n sm)) = camera (scene sm) \<and>
   random_source (scene (spawnTimes ty c i n sm)) = random_source (scene sm) \<and>
   currentSchedule (spawnTimes ty c i n sm) = currentSchedule sm \<and>
   currentWaveIndex (spawnTimes ty c i n sm) = currentWaveIndex sm \<and>
   scheduleTimer (spawnTimes ty c i n sm) = scheduleTimer sm \<and>
   repeatingSpawns (spawnTimes ty c i n sm) = repeatingSpawns sm \<and>
   int (length (monsters (spawnTimes ty c i n sm))) = int (length (monsters sm)) + max 0 (n - i)"
proof (induction ty c i n sm rule: spawnTimes.induct)
  case (1 ty c i n sm)
  have u: "spawnTimes ty c i n sm =
             (if i < n then spawnTimes ty c (i + 1) n (snd (spawnMonster sm ty c)) else sm)"
    by (rule spawnTimes.simps)
  show ?case
  proof (cases "i < n")
    case True
    then have e: "spawnTimes ty c i n sm = spawnTimes ty c (i + 1) n (snd (spawnMonster sm ty c))"
      using u by simp
    show ?thesis
      unfolding e using "1.IH" [OF True] True by (simp add: spawnMonster_frame)
  next
    case False
    then have e: "spawnTimes ty c i n sm = sm" using u by simp
    show ?thesis unfolding e using False by simp
  qed
qed


lemma spawn_fold_frame:
  "time_now (scene (fold (\<lambda>ev s. spawnTimes (monsterType ev) (spawn_config ev) 0 (spawn_count ev) s) evs sm)) = time_now (scene sm) \<and>
   timers (scene (fold (\<lambda>ev s. spawnTimes (monsterType ev) (spawn_config ev) 0 (spawn_count ev) s) evs sm)) = timers (scene sm) \<and>
   next_timer_id (scene (fold (\<lambda>ev s. spawnTimes (monsterType ev) (spawn_config ev) 0 (spawn_count ev) s) evs sm)) = next_timer_id (scene sm) \<and>
   currentSchedule (fold (\<lambda>ev s. spawnTimes (monsterType ev) (spawn_config ev) 0 (spawn_count ev) s) evs sm) = currentSchedule sm \<and>
   currentWaveIndex (fold (\<lambda>ev s. spawnTimes (monsterType ev) (spawn_config ev) 0 (spawn_count ev) s) evs sm) = currentWaveIndex sm \<and>
   scheduleTimer (fold (\<lambda>ev s. spawnTimes (monsterType ev) (spawn_config ev) 0 (spawn_count ev) s) evs sm) = scheduleTimer sm \<and>
   repeatingSpawns (fold (\<lambda>ev s. spawnTimes (monsterType ev) (spawn_config ev) 0 (spawn_count ev) s) evs sm) = repeatingSpawns sm"
proof (induction evs arbitrary: sm)
  case Nil
  then show ?case by simp
next
  case (Cons ev evs)
  show ?case
    using Cons.IH [of "spawnTimes (monsterType ev) (spawn_config ev) 0 (spawn_count ev) sm"]
      spawnTimes_frame [of "monsterType ev" "spawn_config ev" 0 "spawn_count ev" sm]
    by simp
qed

lemma executeWave_frame [simp]:
  "time_now (scene (executeWave w sm)) = time_now (scene sm)"
  "timers (scene (executeWave w sm)) = timers (scene sm)"
  "next_timer_id (scene (executeWave w sm)) = next_timer_id (scene sm)"
  "currentSchedule (executeWave w sm) = currentSchedule sm"
  "currentWaveIndex (executeWave w sm) = currentWaveIndex sm"
  "scheduleTimer (executeWave w sm) = scheduleTimer sm"
  "repeatingSpawns (executeWave w sm) = repeatingSpawns sm"
  using spawn_fold_frame [of "spawns w" sm] by (simp_all add: executeWave_def)

lemma clock_run_idle:
  "next_due horizon (scene sm) = None \<Longrightarrow>
   clock_run n horizon sm =
     Some ([], sm\<lparr>scene := (scene sm)\<lparr>time_now := max (time_now (scene sm)) horizon\<rparr>\<rparr>)"
  by (cases n) simp_all

lemma looping_schedule_run:
  assumes "time_now sc = 0" "timers sc = []"
  shows "map_option (wave_executions \<circ> fst)
           (clock_run (Suc (Suc (Suc (Suc (Suc n))))) 25000
              (startSchedule (looping_schedule sp0 sp1) (SpawnManager_new sc tgt w h))) =
         Some [(0, \<lparr>delay = 0, spawns = sp0\<rparr>), (5000, \<lparr>delay = 5000, spawns = sp1\<rparr>),
               (20000, \<lparr>delay = 0, spawns = sp0\<rparr>), (25000, \<lparr>delay = 5000, spawns = sp1\<rparr>)]"
  using assms
  by (simp add: startSchedule_def stopSchedule_def executeNextWave_def looping_schedule_def
      SpawnManager_new_def delayedCall_def addEvent_def next_due_def fire_def run_callback_def
      Let_def or_default_def clock_run_idle)

text \<open>
  C3. From a scene whose clock shows 0 and that has no timer pending, starting the
  schedule with delays 0 and 5000, \<open>loop = true\<close> and \<open>loopDelay = 15000\<close> and running the
  clock up to 25000 (with fuel for the five firings) returns, and the wave executions
  are wave 0 at 0, wave 1 at 5000, wave 0 at 20000 and wave 1 at 25000, and no others.
\<close>

theorem scripted_schedule_loop:
  assumes "time_now sc = 0" and "timers sc = []" and "5 \<le> fuel"
  shows "\<exists>fired sm'.
           clock_run fuel 25000
             (startSchedule (looping_schedule sp0 sp1) (SpawnManager_new sc tgt w h)) =
             Some (fired, sm') \<and>
           wave_executions fired =
             [(0, \<lparr>delay = 0, spawns = sp0\<rparr>), (5000, \<lparr>delay = 5000, spawns = sp1\<rparr>),
              (20000, \<lparr>delay = 0, spawns = sp0\<rparr>), (25000, \<lparr>delay = 5000, spawns = sp1\<rparr>)]"
proof -
  obtain n where n: "fuel = Suc (Suc (Suc (Suc (Suc n))))"
  proof -
    have "fuel = Suc (Suc (Suc (Suc (Suc (fuel - 5)))))" using assms(3) by simp
    then show ?thesis using that by blast
  qed
  show ?thesis
    using looping_schedule_run [OF assms(1,2), of n sp0 sp1 tgt w h] unfolding n
    by (auto simp: map_option_case split: option.splits)
qed

theorem scripted_schedule_loop_witness:
  "time_now sample_scene = 0 \<and> timers sample_scene = [] \<and> (5::nat) \<le> 5 \<and>
   (\<exists>fired sm'.
      clock_run 5 25000
        (startSchedule (looping_schedule [goblins 3] [goblins 5])
           (SpawnManager_new sample_scene (add_sprite 1600 1200) 3200 2400)) = Some (fired, sm') \<and>
      wave_executions fired =
        [(0, \<lparr>delay = 0, spawns = [goblins 3]\<rparr>), (5000, \<lparr>delay = 5000, spawns = [goblins 5]\<rparr>),
         (20000, \<lparr>delay = 0, spawns = [goblins 3]\<rparr>),
         (25000, \<lparr>delay = 5000, spawns = [goblins 5]\<rparr>)])"
proof -
  have h: "time_now sample_scene = 0" "timers sample_scene = []" "(5::nat) \<le> 5"
    by (simp_all add: sample_scene_def)
  show ?thesis
    using scripted_schedule_loop [OF h, of "[goblins 3]" "[goblins 5]" "add_sprite 1600 1200" 3200 2400] h
    by blast
qed

section \<open>Repeating spawns\<close>

lemma filter_one_out:
  assumes "distinct (map timer_id ts)" and "h \<in> timer_id ` set ts"
  shows "Suc (length (filter (\<lambda>t. timer_id t \<noteq> h) ts)) = length ts"
  using assms
proof (induction ts)
  case Nil
  then show ?case by simp
next
  case (Cons t ts)
  show ?case
  proof (cases "timer_id t = h")
    case True
    then have "h \<notin> timer_id ` set ts" using Cons.prems(1) by auto
    then have "filter (\<lambda>t. timer_id t \<noteq> h) ts = ts" by (auto simp: filter_id_conv)
    then show ?thesis using True by simp
  next
    case False
    then show ?thesis using Cons by auto
  qed
qed

lemma repeating_callback_spawns:
  "int (length (monsters (run_callback (RepeatingCallback cfg) s))) =
     int (length (monsters s)) + max 0 (rep_count cfg)"
  using spawnTimes_frame [of "rep_monsterType cfg" "rep_config cfg" 0 "rep_count cfg" s]
  by (simp add: run_callback_def)

text \<open>
  C7. When a timer is registered under the key (its handle is pending in the scene,
  where handles are distinct and below the next handle), \<open>addRepeatingSpawn\<close> removes
  exactly that timer and appends exactly one new repeating timer, under a fresh handle
  which it stores under the key; the pending timers are as many as before, the old
  handle is gone, no monster is spawned by the call, and each firing of the new timer's
  callback adds exactly \<open>count\<close> monsters. The call returns a manager: there is no error.
\<close>

theorem reregistration_replaces_timer:
  assumes "repeatingSpawns sm ident = Some h"
    and "h \<in> timer_id ` set (timers (scene sm))"
    and "distinct (map timer_id (timers (scene sm)))"
    and "\<forall>t \<in> set (timers (scene sm)). timer_id t < next_timer_id (scene sm)"
  shows "timers (scene (addRepeatingSpawn ident cfg sm)) =
           filter (\<lambda>t. timer_id t \<noteq> h) (timers (scene sm)) @
             [\<lparr>timer_id = next_timer_id (scene sm),
               due = time_now (scene sm) + rep_interval cfg,
               timer_delay = rep_interval cfg, timer_loop = True,
               callback = RepeatingCallback cfg\<rparr>] \<and>
         Suc (length (filter (\<lambda>t. timer_id t \<noteq> h) (timers (scene sm)))) =
           length (timers (scene sm)) \<and>
         length (timers (scene (addRepeatingSpawn ident cfg sm))) = length (timers (scene sm)) \<and>
         h \<notin> timer_id ` set (timers (scene (addRepeatingSpawn ident cfg sm))) \<and>
         repeatingSpawns (addRepeatingSpawn ident cfg sm) =
           (repeatingSpawns sm)(ident := Some (next_timer_id (scene sm))) \<and>
         monsters (addRepeatingSpawn ident cfg sm) = monsters sm \<and>
         (0 \<le> rep_count cfg \<longrightarrow>
            (\<forall>s. length (monsters (run_callback (RepeatingCallback cfg) s)) =
                 length (monsters s) + nat (rep_count cfg)))"
proof -
  let ?new = "\<lparr>timer_id = next_timer_id (scene sm),
               due = time_now (scene sm) + rep_interval cfg,
               timer_delay = rep_interval cfg, timer_loop = True,
               callback = RepeatingCallback cfg\<rparr>"
  have t: "timers (scene (addRepeatingSpawn ident cfg sm)) =
             filter (\<lambda>t. timer_id t \<noteq> h) (timers (scene sm)) @ [?new]"
    and m: "repeatingSpawns (addRepeatingSpawn ident cfg sm) =
           (repeatingSpawns sm)(ident := Some (next_timer_id (scene sm)))"
    and mo: "monsters (addRepeatingSpawn ident cfg sm) = monsters sm"
    using assms(1)
    by (simp_all add: addRepeatingSpawn_def removeRepeatingSpawn_def addEvent_def
        timer_destroy_def Let_def)
  have one: "Suc (length (filter (\<lambda>t. timer_id t \<noteq> h) (timers (scene sm)))) =
           length (timers (scene sm))"
    using filter_one_out [OF assms(3,2)] .
  have fresh: "next_timer_id (scene sm) \<noteq> h" using assms(2,4) by auto
  have gone: "h \<notin> timer_id ` set (timers (scene (addRepeatingSpawn ident cfg sm)))"
    unfolding t using fresh by auto
  have len: "length (timers (scene (addRepeatingSpawn ident cfg sm))) = length (timers (scene sm))"
    unfolding t using one by simp
  have cnt: "length (monsters (run_callback (RepeatingCallback cfg) s)) =
                 length (monsters s) + nat (rep_count cfg)" if "0 \<le> rep_count cfg" for s
    using repeating_callback_spawns [of cfg s] that by linarith
  show ?thesis using t one len gone m mo cnt by blast
qed

lemma registered_manager_eq:
  "registered_manager =
     (SpawnManager_new sample_scene (add_sprite 1600 1200) 3200 2400)
       \<lparr>scene := sample_scene\<lparr>timers :=
            [\<lparr>timer_id = 0, due = 5000, timer_delay = 5000, timer_loop = True,
              callback = RepeatingCallback (repeating_goblins 1)\<rparr>],
            next_timer_id := 1\<rparr>,
        repeatingSpawns := (\<lambda>k. None)(''goblins'' := Some 0)\<rparr>"
  by (simp add: registered_manager_def addRepeatingSpawn_def removeRepeatingSpawn_def
      addEvent_def SpawnManager_new_def sample_scene_def repeating_goblins_def Let_def)

lemma repeating_callback_frame:
  "time_now (scene (run_callback (RepeatingCallback cfg) s)) = time_now (scene s)"
  "timers (scene (run_callback (RepeatingCallback cfg) s)) = timers (scene s)"
  "next_timer_id (scene (run_callback (RepeatingCallback cfg) s)) = next_timer_id (scene s)"
  "repeatingSpawns (run_callback (RepeatingCallback cfg) s) = repeatingSpawns s"
  using spawnTimes_frame [of "rep_monsterType cfg" "rep_config cfg" 0 "rep_count cfg" s]
  by (simp_all add: run_callback_def)

lemma repeating_callback_count:
  "0 \<le> rep_count cfg \<Longrightarrow>
   length (monsters (run_callback (RepeatingCallback cfg) s)) =
     length (monsters s) + nat (rep_count cfg)"
  using repeating_callback_spawns [of cfg s] by linarith

lemma reregistered_run:
  "map_option (\<lambda>r. (map fst (fst r), length (monsters (snd r))))
     (clock_run 2 10000 (addRepeatingSpawn ''goblins'' (repeating_goblins 2) registered_manager)) =
   Some ([5000, 10000], 4)"
proof -
  have c: "0 \<le> rep_count (repeating_goblins 2)" "nat (rep_count (repeating_goblins 2)) = 2"
    "rep_interval (repeating_goblins 2) = 5000"
    by (simp_all add: repeating_goblins_def)
  show ?thesis
    by (simp add: numeral_2_eq_2 registered_manager_eq addRepeatingSpawn_def
        removeRepeatingSpawn_def addEvent_def timer_destroy_def SpawnManager_new_def
        sample_scene_def next_due_def fire_def Let_def clock_run_idle
        repeating_callback_frame repeating_callback_count c)
qed

theorem reregistration_replaces_timer_witness:
  "repeatingSpawns registered_manager ''goblins'' = Some 0 \<and>
   map timer_id (timers (scene registered_manager)) = [0] \<and>
   next_timer_id (scene registered_manager) = 1 \<and>
   timers (scene (addRepeatingSpawn ''goblins'' (repeating_goblins 2) registered_manager)) =
     [\<lparr>timer_id = 1, due = 5000, timer_delay = 5000, timer_loop = True,
       callback = RepeatingCallback (repeating_goblins 2)\<rparr>] \<and>
   repeatingSpawns (addRepeatingSpawn ''goblins'' (repeating_goblins 2) registered_manager)
     ''goblins'' = Some 1 \<and>
   map_option (\<lambda>r. (map fst (fst r), length (monsters (snd r))))
     (clock_run 2 10000 (addRepeatingSpawn ''goblins'' (repeating_goblins 2) registered_manager)) =
   Some ([5000, 10000], 4)"
proof -
  have f: "repeatingSpawns registered_manager ''goblins'' = Some 0"
    "map timer_id (timers (scene registered_manager)) = [0]"
    "next_timer_id (scene registered_manager) = 1"
    "time_now (scene registered_manager) = 0"
    "timers (scene registered_manager) =
       [\<lparr>timer_id = 0, due = 5000, timer_delay = 5000, timer_loop = True,
         callback = RepeatingCallback (repeating_goblins 1)\<rparr>]"
    by (simp_all add: registered_manager_eq sample_scene_def)
  have h: "0 \<in> timer_id ` set (timers (scene registered_manager))"
    "distinct (map timer_id (timers (scene registered_manager)))"
    "\<forall>t \<in> set (timers (scene registered_manager)). timer_id t < next_timer_id (scene registered_manager)"
    by (simp_all add: f)
  note th = reregistration_replaces_timer [OF f(1) h, of "repeating_goblins 2"]
  have t: "timers (scene (addRepeatingSpawn ''goblins'' (repeating_goblins 2) registered_manager)) =
     [\<lparr>timer_id = 1, due = 5000, timer_delay = 5000, timer_loop = True,
       callback = RepeatingCallback (repeating_goblins 2)\<rparr>]"
    using th by (simp add: f repeating_goblins_def)
  have m: "repeatingSpawns (addRepeatingSpawn ''goblins'' (repeating_goblins 2) registered_manager)
     ''goblins'' = Some 1"
    using th by (simp add: f)
  show ?thesis using f(1,2,3) t m reregistered_run by blast
qed

section \<open>Combat resolution\<close>

lemma sqrt_less_40: "sqrt a < 40 \<longleftrightarrow> a < 1600"
proof -
  have "sqrt 1600 = 40" by (rule real_sqrt_unique) simp_all
  then have "sqrt a < 40 \<longleftrightarrow> sqrt a < sqrt 1600" by simp
  then show ?thesis by (simp only: real_sqrt_less_iff)
qed

lemma sqrt_2025: "sqrt 2025 = 45"
  by (rule real_sqrt_unique) simp_all

lemma swing_game_fields:
  "attacks swing_game =
     [sample_attack\<lparr>attack_lastAttackTime := 2000, activeAttacks := [add_sprite 105 100]\<rparr>]"
  "monsters (spawnManager swing_game) = [sample_goblin]"
  "attack_getDamage (sample_attack\<lparr>attack_lastAttackTime := t, activeAttacks := xs\<rparr>) = 25"
  by (simp_all add: swing_game_def sample_attack_def AxeHackAttack_new_def attack_update_def
      execute_def Let_def merge_axe_config_def no_axe_overrides_def or_default_def
      DEFAULT_AXE_HACK_CONFIG_def add_sprite_def attack_getDamage_def)

lemma first_tick:
  "checkAttackCollisions swing_game =
     Inr (swing_game\<lparr>attacks :=
            [sample_attack\<lparr>attack_lastAttackTime := 2000,
               activeAttacks := [setData (105, 110) True (add_sprite 105 100)]\<rparr>],
          spawnManager := (spawnManager swing_game)\<lparr>monsters :=
            [sample_goblin\<lparr>currentHealth := 25,
               sprite := setVelocity 200 0 (setTint 16711680 (add_sprite 110 100))\<rparr>]\<rparr>\<rparr>)"
  by (simp add: checkAttackCollisions_def swing_game_fields getActiveAttacks_def check_monster_def
      getIsAlive_def sample_goblin_fields Distance_Between_def hitRange_def sqrt_less_40
      hitKey_def getData_def takeDamage_eq Let_def sqrt_2025 DEFAULT_GOBLIN_CONFIG_def
      add_sprite_def setData_def setTint_def setVelocity_def die_def)


lemma second_tick_moved:
  "monster_states (checkAttackCollisions
     (engine_step 16 (swing_game\<lparr>attacks :=
            [sample_attack\<lparr>attack_lastAttackTime := 2000,
               activeAttacks := [setData (105, 110) True (add_sprite 105 100)]\<rparr>],
          spawnManager := (spawnManager swing_game)\<lparr>monsters :=
            [sample_goblin\<lparr>currentHealth := 25,
               sprite := setVelocity 200 0 (setTint 16711680 (add_sprite 110 100))\<rparr>]\<rparr>\<rparr>))) =
   Some [(0, False)]"
  by (simp add: monster_states_def engine_step_def physics_step_def
      checkAttackCollisions_def swing_game_fields getActiveAttacks_def check_monster_def
      getIsAlive_def sample_goblin_fields Distance_Between_def hitRange_def sqrt_less_40
      hitKey_def getData_def takeDamage_eq Let_def DEFAULT_GOBLIN_CONFIG_def
      add_sprite_def setData_def setTint_def setVelocity_def die_def)

lemma second_tick_still:
  "monster_states (checkAttackCollisions
     (swing_game\<lparr>attacks :=
            [sample_attack\<lparr>attack_lastAttackTime := 2000,
               activeAttacks := [setData (105, 110) True (add_sprite 105 100)]\<rparr>],
          spawnManager := (spawnManager swing_game)\<lparr>monsters :=
            [sample_goblin\<lparr>currentHealth := 25,
               sprite := setVelocity 200 0 (setTint 16711680 (add_sprite 110 100))\<rparr>]\<rparr>\<rparr>)) =
   Some [(25, True)]"
  by (simp add: monster_states_def
      checkAttackCollisions_def swing_game_fields getActiveAttacks_def check_monster_def
      getIsAlive_def sample_goblin_fields Distance_Between_def hitRange_def sqrt_less_40
      hitKey_def getData_def takeDamage_eq Let_def DEFAULT_GOBLIN_CONFIG_def
      add_sprite_def setData_def setTint_def setVelocity_def die_def)

text \<open>
  C1 does not hold of the code. The mark that \<open>checkAttackCollisions\<close> leaves on the
  attack sprite is keyed by the x coordinates of the two sprites, not by their
  identity. In \<open>swing_game\<close> the first tick damages the goblin (health 50 to 25) and marks
  the pair. If nothing moves, a second tick finds the mark and the goblin keeps health
  25. But the hit itself gave the goblin a knockback velocity: after one engine step of
  16 ms it stands 3.2 further right, the key is a new one, and the second tick damages
  it again through the same sprite (health 0, dead).
\<close>

theorem one_swing_hits_twice:
  "monster_states (Inr swing_game) = Some [(50, True)] \<and>
   monster_states (checkAttackCollisions swing_game) = Some [(25, True)] \<and>
   monster_states (and_then (checkAttackCollisions swing_game) checkAttackCollisions) =
     Some [(25, True)] \<and>
   monster_states (and_then (checkAttackCollisions swing_game)
     (\<lambda>g. checkAttackCollisions (engine_step 16 g))) = Some [(0, False)]"
  by (simp add: first_tick and_then_def second_tick_moved second_tick_still)
     (simp add: monster_states_def swing_game_fields sample_goblin_fields)

end
